theory Spec2Isabelle
  imports Main "HOL-Library.AList"
begin

section \<open>Paths\<close>

text \<open>
  The helper builds paths with Node's \<open>path.join\<close>. The functions of this section follow
  the POSIX implementation of Node's \<open>path\<close> module: the arguments that are not empty
  are concatenated with a slash between them and the outcome is normalised (empty and
  \<open>.\<close> segments dropped, \<open>..\<close> resolved against the segment before it).
\<close>

text \<open>JavaScript's \<open>String.prototype.split\<close> for a separator of one character.\<close>

fun splitOn :: "char \<Rightarrow> string \<Rightarrow> string list" where
  "splitOn sep [] = [[]]"
| "splitOn sep (c # cs) =
     (if c = sep then [] # splitOn sep cs
      else (case splitOn sep cs of [] \<Rightarrow> [[c]] | w # ws \<Rightarrow> (c # w) # ws))"

text \<open>JavaScript's \<open>Array.prototype.join\<close> on an array of strings.\<close>

fun joinWith :: "string \<Rightarrow> string list \<Rightarrow> string" where
  "joinWith sep [] = []"
| "joinWith sep [s] = s"
| "joinWith sep (s # t # ss) = s @ sep @ joinWith sep (t # ss)"

text \<open>JavaScript's \<open>String.prototype.endsWith\<close>.\<close>

definition endsWith :: "string \<Rightarrow> string \<Rightarrow> bool" where
  "endsWith s suff = (length suff \<le> length s \<and> drop (length s - length suff) s = suff)"

fun normalizeString :: "bool \<Rightarrow> string list \<Rightarrow> string list \<Rightarrow> string list" where
  "normalizeString allowAboveRoot res [] = res"
| "normalizeString allowAboveRoot res (seg # segs) =
     (if seg = [] \<or> seg = ''.'' then normalizeString allowAboveRoot res segs
      else if seg = ''..'' then
        (if res \<noteq> [] \<and> last res \<noteq> ''..''
         then normalizeString allowAboveRoot (butlast res) segs
         else if allowAboveRoot then normalizeString allowAboveRoot (res @ [''..'']) segs
         else normalizeString allowAboveRoot res segs)
      else normalizeString allowAboveRoot (res @ [seg]) segs)"

definition normalize :: "string \<Rightarrow> string" where
  "normalize path =
     (if path = [] then ''.''
      else
        let isAbsolute = (hd path = CHR ''/'');
            trailingSeparator = (last path = CHR ''/'');
            p = joinWith ''/'' (normalizeString (\<not> isAbsolute) [] (splitOn CHR ''/'' path))
        in if p = [] then (if isAbsolute then ''/'' else if trailingSeparator then ''./'' else ''.'')
           else
             let p' = (if trailingSeparator then p @ ''/'' else p)
             in if isAbsolute then ''/'' @ p' else p')"

definition join :: "string list \<Rightarrow> string" where
  "join paths =
     (let joined = joinWith ''/'' (filter (\<lambda>arg. arg \<noteq> []) paths)
      in if joined = [] then ''.'' else normalize joined)"

section \<open>The file system\<close>

text \<open>
  The helper forwards to Node's \<open>fs\<close> module. The file system is modelled as an
  association list from canonical paths (the list of names from the root, which is also
  the working directory) to nodes: regular files with their mode and content,
  directories with their mode, a device that takes what is written to it and gives
  nothing to read (as \<open>/dev/null\<close>), and nodes of another type that cannot be opened
  with \<open>open\<close> (a socket). Symbolic links are not part of the model. The mode of a node
  says what the process may do with it: read it (for a directory, list it), write to it
  (for a directory, add and remove entries) and, for a directory, search it. The
  primitives below follow the documented behaviour of the \<open>fs\<close> functions the helper
  calls; the callback form and the \<open>Sync\<close> form of a primitive are the same system call
  and are one function here. A primitive that fails returns \<open>Inl\<close> with the error.
\<close>

datatype error =
  ENOENT | EEXIST | ENOTDIR | EISDIR | ENOTEMPTY | EACCES | ENXIO | EBUSY | SyntaxError
  | ENAMETOOLONG | ERR_INVALID_ARG_VALUE

datatype file_type = RegularFile | Directory | OtherType

record mode =
  readable :: bool
  writable :: bool
  searchable :: bool

datatype inode = FileNode mode string | DirNode mode | OtherNode | DeviceNode

type_synonym file_system = "(string list \<times> inode) list"

text \<open>The mode of a directory and of a regular file that the process creates.\<close>

definition rwx :: mode where
  "rwx = \<lparr>readable = True, writable = True, searchable = True\<rparr>"

definition rw :: mode where
  "rw = \<lparr>readable = True, writable = True, searchable = False\<rparr>"

record stats =
  st_type :: file_type
  st_size :: nat

record dirent =
  name :: string
  d_type :: file_type

definition isFile :: "dirent \<Rightarrow> bool" where
  "isFile file = (d_type file = RegularFile)"

definition isDirectory :: "dirent \<Rightarrow> bool" where
  "isDirectory file = (d_type file = Directory)"

fun inode_type :: "inode \<Rightarrow> file_type" where
  "inode_type (FileNode m content) = RegularFile"
| "inode_type (DirNode m) = Directory"
| "inode_type OtherNode = OtherType"
| "inode_type DeviceNode = OtherType"

fun inode_stats :: "inode \<Rightarrow> stats" where
  "inode_stats (FileNode m content) = \<lparr>st_type = RegularFile, st_size = length content\<rparr>"
| "inode_stats (DirNode m) = \<lparr>st_type = Directory, st_size = 0\<rparr>"
| "inode_stats OtherNode = \<lparr>st_type = OtherType, st_size = 0\<rparr>"
| "inode_stats DeviceNode = \<lparr>st_type = OtherType, st_size = 0\<rparr>"

definition lookup :: "file_system \<Rightarrow> string list \<Rightarrow> inode option" where
  "lookup fs p = (if p = [] then Some (DirNode rwx) else map_of fs p)"

text \<open>
  Every function of \<open>fs\<close> checks its path argument before it calls the system: a string
  with a NUL character is refused with \<open>ERR_INVALID_ARG_VALUE\<close>. The function raises
  this error itself, in its callback form too, where the callback is then never called;
  an error of the system call is raised by the \<open>Sync\<close> form and given to the callback by
  the callback form.
\<close>

definition validatePath :: "string \<Rightarrow> error option" where
  "validatePath path = (if CHR 0x00 \<in> set path then Some ERR_INVALID_ARG_VALUE else None)"

text \<open>
  Path resolution: every segment is resolved in the directory reached so far, which has
  to exist, be a directory and be searchable. The node the whole path names is not
  looked at, so the result is also the place where a new node would be created. The
  system refuses a name of more than 255 bytes and a path of more than 4095 bytes (the
  limits of Linux).
\<close>

fun walk :: "file_system \<Rightarrow> string list \<Rightarrow> string list \<Rightarrow> error + string list" where
  "walk fs cur [] = Inr cur"
| "walk fs cur (seg # segs) =
     (case lookup fs cur of
        None \<Rightarrow> Inl ENOENT
      | Some (DirNode m) \<Rightarrow>
          if \<not> searchable m then Inl EACCES
          else if seg = [] \<or> seg = ''.'' then walk fs cur segs
          else if seg = ''..'' then walk fs (butlast cur) segs
          else if 255 < length seg then Inl ENAMETOOLONG
          else walk fs (cur @ [seg]) segs
      | Some _ \<Rightarrow> Inl ENOTDIR)"

definition resolve :: "file_system \<Rightarrow> string \<Rightarrow> error + string list" where
  "resolve fs path =
     (case validatePath path of
        Some err \<Rightarrow> Inl err
      | None \<Rightarrow>
          if path = [] then Inl ENOENT
          else if 4095 < length path then Inl ENAMETOOLONG
          else walk fs [] (splitOn CHR ''/'' path))"

definition fs_stat :: "file_system \<Rightarrow> string \<Rightarrow> error + stats" where
  "fs_stat fs path =
     (case resolve fs path of
        Inl err \<Rightarrow> Inl err
      | Inr p \<Rightarrow> (case lookup fs p of None \<Rightarrow> Inl ENOENT | Some node \<Rightarrow> Inr (inode_stats node)))"

text \<open>\<open>fs.access\<close> with the mode \<open>F_OK\<close>: the path names a node.\<close>

definition fs_access :: "file_system \<Rightarrow> string \<Rightarrow> error + unit" where
  "fs_access fs path =
     (case resolve fs path of
        Inl err \<Rightarrow> Inl err
      | Inr p \<Rightarrow> (case lookup fs p of None \<Rightarrow> Inl ENOENT | Some node \<Rightarrow> Inr ()))"

text \<open>
  \<open>fs.existsSync\<close>: true exactly when the access check succeeds; it catches every
  error, also the one of the check of the path.
\<close>

definition fs_existsSync :: "file_system \<Rightarrow> string \<Rightarrow> bool" where
  "fs_existsSync fs path = (case fs_access fs path of Inl err \<Rightarrow> False | Inr u \<Rightarrow> True)"

definition fs_readFile :: "file_system \<Rightarrow> string \<Rightarrow> error + string" where
  "fs_readFile fs path =
     (case resolve fs path of
        Inl err \<Rightarrow> Inl err
      | Inr p \<Rightarrow>
          (case lookup fs p of
             None \<Rightarrow> Inl ENOENT
           | Some (FileNode m content) \<Rightarrow> if readable m then Inr content else Inl EACCES
           | Some (DirNode m) \<Rightarrow> Inl EISDIR
           | Some OtherNode \<Rightarrow> Inl ENXIO
           | Some DeviceNode \<Rightarrow> Inr []))"

text \<open>
  The \<open>flag\<close> option of \<open>fs.writeFile\<close>: \<open>'w'\<close> (the default of Node when the options
  carry no flag) truncates, \<open>'a'\<close> appends, and the \<open>x\<close> forms fail on an existing path.
\<close>

datatype flag = FlagW | FlagA | FlagWX | FlagAX

record write_options =
  flag :: "flag option"

text \<open>The process may add an entry to, and remove one from, the directory \<open>p\<close>.\<close>

definition writableDir :: "file_system \<Rightarrow> string list \<Rightarrow> bool" where
  "writableDir fs p = (case lookup fs p of Some (DirNode m) \<Rightarrow> writable m | _ \<Rightarrow> False)"

text \<open>The path without the slashes at its end.\<close>

definition stripSlashes :: "string \<Rightarrow> string" where
  "stripSlashes path = rev (dropWhile (\<lambda>c. c = CHR ''/'') (rev path))"

text \<open>
  \<open>fs.writeFile\<close> opens the path with the flag, creating a regular file where the path
  names nothing, and writes the data. A new file needs a directory the process may
  write to. A path that ends in a slash never names a regular file: where the name
  before the slash is free the system answers \<open>EISDIR\<close> (as Linux does), and otherwise
  the resolution of the path has failed already or has reached a directory.
\<close>

definition fs_writeFile ::
  "string \<Rightarrow> string \<Rightarrow> write_options \<Rightarrow> file_system \<Rightarrow> (error + unit) \<times> file_system" where
  "fs_writeFile path data options fs =
     (case resolve fs path of
        Inl err \<Rightarrow>
          (case resolve fs (stripSlashes path) of
             Inl err' \<Rightarrow> (Inl err, fs)
           | Inr p \<Rightarrow> if lookup fs p = None then (Inl EISDIR, fs) else (Inl err, fs))
      | Inr p \<Rightarrow>
          (case lookup fs p of
             None \<Rightarrow>
               if writableDir fs (butlast p) then (Inr (), fs @ [(p, FileNode rw data)])
               else (Inl EACCES, fs)
           | Some (FileNode m content) \<Rightarrow>
               (case flag options of
                  Some FlagWX \<Rightarrow> (Inl EEXIST, fs)
                | Some FlagAX \<Rightarrow> (Inl EEXIST, fs)
                | Some FlagA \<Rightarrow>
                    if writable m then (Inr (), AList.update p (FileNode m (content @ data)) fs)
                    else (Inl EACCES, fs)
                | _ \<Rightarrow>
                    if writable m then (Inr (), AList.update p (FileNode m data) fs)
                    else (Inl EACCES, fs))
           | Some (DirNode m) \<Rightarrow>
               (case flag options of
                  Some FlagWX \<Rightarrow> (Inl EEXIST, fs)
                | Some FlagAX \<Rightarrow> (Inl EEXIST, fs)
                | _ \<Rightarrow> (Inl EISDIR, fs))
           | Some OtherNode \<Rightarrow>
               (case flag options of
                  Some FlagWX \<Rightarrow> (Inl EEXIST, fs)
                | Some FlagAX \<Rightarrow> (Inl EEXIST, fs)
                | _ \<Rightarrow> (Inl ENXIO, fs))
           | Some DeviceNode \<Rightarrow>
               (case flag options of
                  Some FlagWX \<Rightarrow> (Inl EEXIST, fs)
                | Some FlagAX \<Rightarrow> (Inl EEXIST, fs)
                | _ \<Rightarrow> (Inr (), fs))))"

text \<open>
  \<open>fs.mkdir\<close> with \<open>recursive: true\<close>: the missing directories of the path are created
  one after the other; a path that already names a directory is a success, one that
  names something else fails with \<open>EEXIST\<close>. The directories created before a failure
  stay.
\<close>

fun mkdirp ::
  "string list \<Rightarrow> string list \<Rightarrow> file_system \<Rightarrow> (error + unit) \<times> file_system" where
  "mkdirp cur [] fs =
     (case lookup fs cur of
        Some (DirNode m) \<Rightarrow> (Inr (), fs)
      | _ \<Rightarrow> (Inl EEXIST, fs))"
| "mkdirp cur (seg # segs) fs =
     (case lookup fs cur of
        None \<Rightarrow> (Inl ENOENT, fs)
      | Some (DirNode m) \<Rightarrow>
          if \<not> searchable m then (Inl EACCES, fs)
          else if seg = [] \<or> seg = ''.'' then mkdirp cur segs fs
          else if seg = ''..'' then mkdirp (butlast cur) segs fs
          else if 255 < length seg then (Inl ENAMETOOLONG, fs)
          else (case lookup fs (cur @ [seg]) of
                  None \<Rightarrow>
                    if writable m
                    then mkdirp (cur @ [seg]) segs (fs @ [(cur @ [seg], DirNode rwx)])
                    else (Inl EACCES, fs)
                | Some node \<Rightarrow> mkdirp (cur @ [seg]) segs fs)
      | Some _ \<Rightarrow> (Inl ENOTDIR, fs))"

definition fs_mkdir_recursive ::
  "string \<Rightarrow> file_system \<Rightarrow> (error + unit) \<times> file_system" where
  "fs_mkdir_recursive path fs =
     (case validatePath path of
        Some err \<Rightarrow> (Inl err, fs)
      | None \<Rightarrow>
          if path = [] then (Inl ENOENT, fs)
          else if 4095 < length path then (Inl ENAMETOOLONG, fs)
          else mkdirp [] (splitOn CHR ''/'' path) fs)"

definition children :: "file_system \<Rightarrow> string list \<Rightarrow> (string list \<times> inode) list" where
  "children fs p = filter (\<lambda>(q, node). q \<noteq> [] \<and> butlast q = p) fs"

definition fs_rmdir :: "string \<Rightarrow> file_system \<Rightarrow> (error + unit) \<times> file_system" where
  "fs_rmdir path fs =
     (case resolve fs path of
        Inl err \<Rightarrow> (Inl err, fs)
      | Inr p \<Rightarrow>
          (case lookup fs p of
             None \<Rightarrow> (Inl ENOENT, fs)
           | Some (DirNode m) \<Rightarrow>
               if p = [] then (Inl EBUSY, fs)
               else if \<not> writableDir fs (butlast p) then (Inl EACCES, fs)
               else if children fs p \<noteq> [] then (Inl ENOTEMPTY, fs)
               else (Inr (), AList.delete p fs)
           | Some _ \<Rightarrow> (Inl ENOTDIR, fs)))"

definition fs_unlink :: "string \<Rightarrow> file_system \<Rightarrow> (error + unit) \<times> file_system" where
  "fs_unlink path fs =
     (case resolve fs path of
        Inl err \<Rightarrow> (Inl err, fs)
      | Inr p \<Rightarrow>
          (case lookup fs p of
             None \<Rightarrow> (Inl ENOENT, fs)
           | Some (DirNode m) \<Rightarrow> (Inl EISDIR, fs)
           | Some _ \<Rightarrow>
               if writableDir fs (butlast p) then (Inr (), AList.delete p fs)
               else (Inl EACCES, fs)))"

text \<open>\<open>fs.readdir\<close> with \<open>withFileTypes: true\<close>: the entries in the order the system keeps them.\<close>

definition fs_readdir :: "file_system \<Rightarrow> string \<Rightarrow> error + dirent list" where
  "fs_readdir fs path =
     (case resolve fs path of
        Inl err \<Rightarrow> Inl err
      | Inr p \<Rightarrow>
          (case lookup fs p of
             None \<Rightarrow> Inl ENOENT
           | Some (DirNode m) \<Rightarrow>
               if \<not> readable m then Inl EACCES
               else Inr (map (\<lambda>(q, node). \<lparr>name = last q, d_type = inode_type node\<rparr>) (children fs p))
           | Some _ \<Rightarrow> Inl ENOTDIR))"

section \<open>Promises\<close>

text \<open>
  A promise is pending until \<open>resolve\<close> or \<open>reject\<close> is called on it for the first
  time; later calls have no effect. The outcome of a promise-returning method is the
  state its promise reaches: resolved with a value, rejected with an error, or pending
  for ever.
\<close>

datatype 'a promise = Pending | Resolved 'a | Rejected error

definition settle :: "'a promise \<Rightarrow> 'a promise \<Rightarrow> 'a promise" where
  "settle outcome promise = (case promise of Pending \<Rightarrow> outcome | _ \<Rightarrow> promise)"

text \<open>
  Inside an \<open>async\<close> function, \<open>await\<close> on a resolved promise gives its value, on a
  rejected promise it raises the error, and on a promise that stays pending it never
  returns. The body of an \<open>async\<close> function therefore completes with a value, raises, or
  stays suspended.
\<close>

datatype 'a completion = Completed 'a | Threw error | Suspended

definition await :: "'a promise \<Rightarrow> 'a completion" where
  "await promise =
     (case promise of
        Resolved v \<Rightarrow> Completed v
      | Rejected err \<Rightarrow> Threw err
      | Pending \<Rightarrow> Suspended)"

text \<open>The promise an \<open>async\<close> function returns, from the way its body ends.\<close>

definition async :: "'a completion \<Rightarrow> 'a promise" where
  "async body =
     (case body of
        Completed v \<Rightarrow> Resolved v
      | Threw err \<Rightarrow> Rejected err
      | Suspended \<Rightarrow> Pending)"

text \<open>
  The promise that resolves where a blocking call returns and rejects where it raises;
  it is what the two variants of a method are compared with.
\<close>

definition settled :: "error + 'a \<Rightarrow> 'a promise" where
  "settled outcome = (case outcome of Inl err \<Rightarrow> Rejected err | Inr v \<Rightarrow> Resolved v)"

section \<open>The helper: one call of the operating system per method\<close>

text \<open>
  \<open>FileSystemHelper\<close> keeps the optional root path given to its constructor. The methods
  take their path as a string, as their signatures declare. A method that changes the
  file system takes the file system and returns its outcome with the new file system; a
  method that only reads returns its outcome. The outcome of a blocking method is
  \<open>Inr\<close> of the value it returns or \<open>Inl\<close> of the error it raises; the outcome of a
  promise-returning method is the state of its promise.

  The promise-returning methods call the callback form of a primitive inside the
  executor of \<open>new Promise\<close>. An exception inside an executor rejects the promise.
  Where the callback passes its error to \<open>reject\<close>, the error that the primitive
  raises itself and the error that it gives to the callback have the same effect, and
  the definition has one case for both; where the executor takes \<open>resolve\<close> only
  (\<open>fileExists\<close>, \<open>dirExists\<close>, \<open>rmdir\<close>), the error that \<open>validatePath\<close> raises
  rejects the promise and the error of the system call reaches the callback.
\<close>

record fileSystemHelper =
  rootPath :: "string option"

definition resolvePath :: "fileSystemHelper \<Rightarrow> string \<Rightarrow> string" where
  "resolvePath this dirPath =
     (case rootPath this of
        None \<Rightarrow> dirPath
      | Some root \<Rightarrow> if root = [] then dirPath else join [root, dirPath])"

definition mkdir ::
  "fileSystemHelper \<Rightarrow> string \<Rightarrow> file_system \<Rightarrow> unit promise \<times> file_system" where
  "mkdir this dirPath fs =
     (case fs_mkdir_recursive (resolvePath this dirPath) fs of
        (Inl err, fs') \<Rightarrow> (settle (Rejected err) Pending, fs')
      | (Inr u, fs') \<Rightarrow> (settle (Resolved ()) Pending, fs'))"

definition mkdirSync ::
  "fileSystemHelper \<Rightarrow> string \<Rightarrow> file_system \<Rightarrow> (error + unit) \<times> file_system" where
  "mkdirSync this dirPath fs =
     (if fs_existsSync fs (resolvePath this dirPath) then (Inr (), fs)
      else fs_mkdir_recursive (resolvePath this dirPath) fs)"

text \<open>The default value \<open>{}\<close> of the \<open>options\<close> parameter carries no flag.\<close>

definition writeFile ::
  "fileSystemHelper \<Rightarrow> string \<Rightarrow> string \<Rightarrow> write_options option \<Rightarrow> file_system
     \<Rightarrow> unit promise \<times> file_system" where
  "writeFile this filePath data options fs =
     (let options = (case options of None \<Rightarrow> \<lparr>flag = None\<rparr> | Some given \<Rightarrow> given)
      in case fs_writeFile (resolvePath this filePath) data options fs of
           (Inl err, fs') \<Rightarrow> (settle (Rejected err) Pending, fs')
         | (Inr u, fs') \<Rightarrow> (settle (Resolved ()) Pending, fs'))"

definition writeFileSync ::
  "fileSystemHelper \<Rightarrow> string \<Rightarrow> string \<Rightarrow> write_options option \<Rightarrow> file_system
     \<Rightarrow> (error + unit) \<times> file_system" where
  "writeFileSync this filePath data options fs =
     (let options = (case options of None \<Rightarrow> \<lparr>flag = None\<rparr> | Some given \<Rightarrow> given)
      in fs_writeFile (resolvePath this filePath) data options fs)"

text \<open>
  The global \<open>JSON\<close> object of the JavaScript runtime, over any type of values:
  \<open>stringify\<close> gives the text of a value and \<open>parse\<close> reads a text, raising a
  \<open>SyntaxError\<close> or returning the value.
\<close>

record 'v json_object =
  stringify :: "'v \<Rightarrow> string"
  parse :: "string \<Rightarrow> error + 'v"


text \<open>
  A \<open>Buffer\<close> holds the bytes of a file; the content of a file is kept as the text
  written to it, so \<open>toString\<close> (decoding UTF-8) gives the content back.
\<close>

type_synonym buffer = string

definition toString :: "buffer \<Rightarrow> string" where
  "toString data = data"

definition readFile :: "fileSystemHelper \<Rightarrow> string \<Rightarrow> file_system \<Rightarrow> buffer promise" where
  "readFile this filePath fs =
     (case fs_readFile fs (resolvePath this filePath) of
        Inl err \<Rightarrow> settle (Rejected err) Pending
      | Inr data \<Rightarrow> settle (Resolved data) Pending)"

definition readFileSync :: "fileSystemHelper \<Rightarrow> string \<Rightarrow> file_system \<Rightarrow> error + buffer" where
  "readFileSync this filePath fs = fs_readFile fs (resolvePath this filePath)"

definition readTXTFile :: "fileSystemHelper \<Rightarrow> string \<Rightarrow> file_system \<Rightarrow> string promise" where
  "readTXTFile this filePath fs =
     async (case await (readFile this filePath fs) of
              Completed data \<Rightarrow> Completed ([] @ toString data)
            | Threw err \<Rightarrow> Threw err
            | Suspended \<Rightarrow> Suspended)"

definition readTXTFileSync :: "fileSystemHelper \<Rightarrow> string \<Rightarrow> file_system \<Rightarrow> error + string" where
  "readTXTFileSync this filePath fs =
     (case readFileSync this filePath fs of
        Inl err \<Rightarrow> Inl err
      | Inr data \<Rightarrow> Inr ([] @ toString data))"

definition readJSONFile ::
  "'v json_object \<Rightarrow> fileSystemHelper \<Rightarrow> string \<Rightarrow> file_system \<Rightarrow> 'v promise" where
  "readJSONFile JSON this filePath fs =
     async (case await (readFile this filePath fs) of
              Completed data \<Rightarrow>
                (case parse JSON (toString data) of
                   Inl err \<Rightarrow> Threw err
                 | Inr v \<Rightarrow> Completed v)
            | Threw err \<Rightarrow> Threw err
            | Suspended \<Rightarrow> Suspended)"

definition readJSONFileSync ::
  "'v json_object \<Rightarrow> fileSystemHelper \<Rightarrow> string \<Rightarrow> file_system \<Rightarrow> error + 'v" where
  "readJSONFileSync JSON this filePath fs =
     (case readFileSync this filePath fs of
        Inl err \<Rightarrow> Inl err
      | Inr data \<Rightarrow> parse JSON (toString data))"

definition fileExists :: "fileSystemHelper \<Rightarrow> string \<Rightarrow> file_system \<Rightarrow> bool promise" where
  "fileExists this filePath fs =
     (case validatePath (resolvePath this filePath) of
        Some err \<Rightarrow> settle (Rejected err) Pending
      | None \<Rightarrow>
          (case fs_access fs (resolvePath this filePath) of
             Inl err \<Rightarrow> settle (Resolved False) Pending
           | Inr u \<Rightarrow> settle (Resolved True) Pending))"

text \<open>The default value of \<open>filePath\<close> is \<open>'.'\<close>; \<open>try\<close> and \<open>catch\<close> are the two cases.\<close>

definition fileExistsSync ::
  "fileSystemHelper \<Rightarrow> string option \<Rightarrow> file_system \<Rightarrow> error + bool" where
  "fileExistsSync this filePath fs =
     (let filePath = (case filePath of None \<Rightarrow> ''.'' | Some given \<Rightarrow> given)
      in case fs_access fs (resolvePath this filePath) of
           Inr u \<Rightarrow> Inr True
         | Inl err \<Rightarrow> Inr False)"

text \<open>The result \<open>null\<close> is \<open>None\<close>.\<close>

definition fileStatsSync ::
  "fileSystemHelper \<Rightarrow> string \<Rightarrow> file_system \<Rightarrow> error + stats option" where
  "fileStatsSync this filePath fs =
     (case fs_stat fs (resolvePath this filePath) of
        Inr st \<Rightarrow> Inr (Some st)
      | Inl err \<Rightarrow> Inr None)"

definition dirExists :: "fileSystemHelper \<Rightarrow> string \<Rightarrow> file_system \<Rightarrow> bool promise" where
  "dirExists this dirPath fs =
     (case validatePath (resolvePath this dirPath) of
        Some err \<Rightarrow> settle (Rejected err) Pending
      | None \<Rightarrow>
          (case fs_stat fs (resolvePath this dirPath) of
             Inl err \<Rightarrow> settle (Resolved False) Pending
           | Inr st \<Rightarrow> settle (Resolved True) Pending))"

definition dirExistsSync :: "fileSystemHelper \<Rightarrow> string \<Rightarrow> file_system \<Rightarrow> error + bool" where
  "dirExistsSync this dirPath fs =
     (case fs_stat fs (resolvePath this dirPath) of
        Inr st \<Rightarrow> Inr True
      | Inl e \<Rightarrow> Inr False)"

definition rmdir ::
  "fileSystemHelper \<Rightarrow> string \<Rightarrow> file_system \<Rightarrow> bool promise \<times> file_system" where
  "rmdir this dirPath fs =
     (case validatePath (resolvePath this dirPath) of
        Some err \<Rightarrow> (settle (Rejected err) Pending, fs)
      | None \<Rightarrow>
          (case fs_rmdir (resolvePath this dirPath) fs of
             (Inl err, fs') \<Rightarrow> (settle (Resolved False) Pending, fs')
           | (Inr u, fs') \<Rightarrow> (settle (Resolved True) Pending, fs')))"

definition rmdirSync ::
  "fileSystemHelper \<Rightarrow> string \<Rightarrow> file_system \<Rightarrow> (error + unit) \<times> file_system" where
  "rmdirSync this dirPath fs = fs_rmdir (resolvePath this dirPath) fs"

definition rm ::
  "fileSystemHelper \<Rightarrow> string \<Rightarrow> file_system \<Rightarrow> unit promise \<times> file_system" where
  "rm this filePath fs =
     (case fs_unlink (resolvePath this filePath) fs of
        (Inl err, fs') \<Rightarrow> (settle (Rejected err) Pending, fs')
      | (Inr u, fs') \<Rightarrow> (settle (Resolved ()) Pending, fs'))"

definition rmSync ::
  "fileSystemHelper \<Rightarrow> string \<Rightarrow> file_system \<Rightarrow> (error + unit) \<times> file_system" where
  "rmSync this filePath fs = fs_unlink (resolvePath this filePath) fs"

text \<open>The default value of \<open>options\<close> is \<open>{ flag: 'a' }\<close>.\<close>

definition touch ::
  "fileSystemHelper \<Rightarrow> string \<Rightarrow> write_options option \<Rightarrow> file_system
     \<Rightarrow> unit promise \<times> file_system" where
  "touch this filePath options fs =
     (let options = (case options of None \<Rightarrow> \<lparr>flag = Some FlagA\<rparr> | Some given \<Rightarrow> given)
      in writeFile this filePath [] (Some options) fs)"

definition touchSync ::
  "fileSystemHelper \<Rightarrow> string \<Rightarrow> write_options option \<Rightarrow> file_system
     \<Rightarrow> (error + unit) \<times> file_system" where
  "touchSync this filePath options fs =
     (let options = (case options of None \<Rightarrow> \<lparr>flag = Some FlagA\<rparr> | Some given \<Rightarrow> given)
      in writeFileSync this filePath [] (Some options) fs)"

section \<open>Directory listing\<close>

text \<open>
  The options of \<open>readDir\<close>: an absent \<open>acceptExtensions\<close> is \<open>None\<close> (an empty array
  is present), \<open>recursiveLevels\<close> is a natural number as the contract of the method
  says, absent or \<open>0\<close> for no recursion, and an absent boolean is \<open>False\<close>. The
  methods are modelled with both arguments given (their defaults are \<open>'.'\<close> and \<open>{}\<close>,
  the options with every field absent).
\<close>

record read_options =
  acceptExtensions :: "string list option"
  recursiveLevels :: "nat option"
  onlyFiles :: bool
  onlyDirs :: bool

text \<open>The inner loop: every child gets its name rewritten and is pushed.\<close>

fun pushChildren :: "string \<Rightarrow> dirent list \<Rightarrow> dirent list \<Rightarrow> dirent list" where
  "pushChildren dirName [] foundFiles = foundFiles"
| "pushChildren dirName (childFile # rest) foundFiles =
     pushChildren dirName rest
       (foundFiles @ [childFile\<lparr>name := join [dirName, name childFile]\<rparr>])"

text \<open>
  The outer loop over \<open>acceptedFiles\<close>, with the recursive call as \<open>readChildren\<close>; an
  error of the recursive call leaves the loop and the method.
\<close>

fun forEachFile ::
  "(dirent \<Rightarrow> error + dirent list) \<Rightarrow> dirent list \<Rightarrow> dirent list \<Rightarrow> error + dirent list" where
  "forEachFile readChildren [] foundFiles = Inr foundFiles"
| "forEachFile readChildren (file # rest) foundFiles =
     (if isDirectory file then
        (case readChildren file of
           Inl err \<Rightarrow> Inl err
         | Inr childrenFiles \<Rightarrow>
             forEachFile readChildren rest (pushChildren (name file) childrenFiles foundFiles))
      else forEachFile readChildren rest (foundFiles @ [file]))"

text \<open>
  The same loop in \<open>readDir\<close>, where the recursive call is awaited. The loop runs in the
  body of the \<open>async\<close> callback given to \<open>fs.readdir\<close>: a rejected promise of a child
  makes \<open>await\<close> raise there, and a pending one suspends the callback.
\<close>

fun awaitEachFile ::
  "(dirent \<Rightarrow> dirent list promise) \<Rightarrow> dirent list \<Rightarrow> dirent list
     \<Rightarrow> dirent list completion" where
  "awaitEachFile readChildren [] foundFiles = Completed foundFiles"
| "awaitEachFile readChildren (file # rest) foundFiles =
     (if isDirectory file then
        (case await (readChildren file) of
           Completed childrenFiles \<Rightarrow>
             awaitEachFile readChildren rest (pushChildren (name file) childrenFiles foundFiles)
         | Threw err \<Rightarrow> Threw err
         | Suspended \<Rightarrow> Suspended)
      else awaitEachFile readChildren rest (foundFiles @ [file]))"

definition acceptFile :: "string list \<Rightarrow> dirent \<Rightarrow> bool" where
  "acceptFile extensions file =
     (\<not> isFile file \<or> list_ex (\<lambda>extension. endsWith (name file) (''.'' @ extension)) extensions)"

definition levels :: "read_options \<Rightarrow> nat" where
  "levels options = (case recursiveLevels options of None \<Rightarrow> 0 | Some n \<Rightarrow> n)"

text \<open>
  \<open>readDir\<close> settles its promise in the callback of \<open>fs.readdir\<close>: \<open>reject\<close> for an
  error of the listing, \<open>resolve\<close> at the end of the body. The callback is an \<open>async\<close>
  function whose own promise nobody reads, so when its body raises or stays suspended
  neither \<open>resolve\<close> nor \<open>reject\<close> is called.
\<close>

function readDir ::
  "fileSystemHelper \<Rightarrow> file_system \<Rightarrow> string \<Rightarrow> read_options \<Rightarrow> dirent list promise" where
  "readDir this fs dirPath options =
     (case fs_readdir fs (resolvePath this dirPath) of
        Inl err \<Rightarrow> settle (Rejected err) Pending
      | Inr files \<Rightarrow>
          (let acceptedFiles =
                 (case acceptExtensions options of
                    None \<Rightarrow> files
                  | Some extensions \<Rightarrow> filter (acceptFile extensions) files)
           in case (case recursiveLevels options of
                      None \<Rightarrow> Completed acceptedFiles
                    | Some 0 \<Rightarrow> Completed acceptedFiles
                    | Some (Suc n) \<Rightarrow>
                        awaitEachFile
                          (\<lambda>file. readDir this fs (join [dirPath, name file])
                             \<lparr>acceptExtensions = acceptExtensions options,
                              recursiveLevels = Some n, onlyFiles = False, onlyDirs = False\<rparr>)
                          acceptedFiles []) of
                Threw err \<Rightarrow> Pending
              | Suspended \<Rightarrow> Pending
              | Completed acceptedFiles \<Rightarrow>
                  (let acceptedFiles =
                         (if onlyFiles options then filter isFile acceptedFiles
                          else acceptedFiles);
                       acceptedFiles =
                         (if onlyDirs options then filter isDirectory acceptedFiles
                          else acceptedFiles)
                   in settle (Resolved acceptedFiles) Pending)))"
  by pat_completeness auto
termination
  by (relation "measure (\<lambda>(this, fs, dirPath, options). levels options)")
     (auto simp: levels_def)

function readDirSync ::
  "fileSystemHelper \<Rightarrow> file_system \<Rightarrow> string \<Rightarrow> read_options \<Rightarrow> error + dirent list" where
  "readDirSync this fs dirPath options =
     (case fs_readdir fs (resolvePath this dirPath) of
        Inl err \<Rightarrow> Inl err
      | Inr files \<Rightarrow>
          (let acceptedFiles =
                 (case acceptExtensions options of
                    None \<Rightarrow> files
                  | Some extensions \<Rightarrow> filter (acceptFile extensions) files)
           in case (case recursiveLevels options of
                      None \<Rightarrow> Inr acceptedFiles
                    | Some 0 \<Rightarrow> Inr acceptedFiles
                    | Some (Suc n) \<Rightarrow>
                        forEachFile
                          (\<lambda>file. readDirSync this fs (join [dirPath, name file])
                             \<lparr>acceptExtensions = acceptExtensions options,
                              recursiveLevels = Some n, onlyFiles = False, onlyDirs = False\<rparr>)
                          acceptedFiles []) of
                Inl err \<Rightarrow> Inl err
              | Inr acceptedFiles \<Rightarrow>
                  (let acceptedFiles =
                         (if onlyFiles options then filter isFile acceptedFiles
                          else acceptedFiles);
                       acceptedFiles =
                         (if onlyDirs options then filter isDirectory acceptedFiles
                          else acceptedFiles)
                   in Inr acceptedFiles)))"
  by pat_completeness auto
termination
  by (relation "measure (\<lambda>(this, fs, dirPath, options). levels options)")
     (auto simp: levels_def)

section \<open>Promises, listeners and the events of the runtime\<close>

subsection \<open>Subprocess execution\<close>

text \<open>
  Node's \<open>spawn\<close> either raises, or returns the child process. The events of a child
  reach the listeners registered for them in the order given: \<open>data\<close> and \<open>end\<close> of its
  standard output stream, \<open>error\<close> of the child itself (this is how Node reports, after
  \<open>spawn\<close> has returned, a command that the system could not start, for example one
  that does not exist), and \<open>exit\<close> with the exit code. \<open>spawn\<close> is a parameter of
  \<open>execute\<close>.
\<close>

datatype child_event = StdoutData buffer | StdoutEnd | ChildError error | ChildExit int

datatype spawn_result = SpawnThrows error | SpawnReturns "child_event list"

text \<open>The loop of the \<open>data\<close> listener over the lines of one buffer.\<close>

fun pushLines :: "string list \<Rightarrow> string list \<Rightarrow> string list" where
  "pushLines [] stdout = stdout"
| "pushLines (line # lines) stdout =
     (if line \<noteq> [] then pushLines lines (stdout @ [line]) else pushLines lines stdout)"

definition onData :: "buffer \<Rightarrow> string list \<Rightarrow> string list" where
  "onData buffer stdout = (let lines = splitOn (CHR 0x0A) (toString buffer) in pushLines lines stdout)"

text \<open>
  The events of the child, handled one after the other: \<open>execute\<close> registers a listener
  for \<open>data\<close> and one for \<open>end\<close> of the standard output, and for nothing else.
\<close>

fun dispatch ::
  "child_event list \<Rightarrow> string list \<Rightarrow> string list promise \<Rightarrow> string list promise" where
  "dispatch [] stdout promise = promise"
| "dispatch (StdoutData buffer # events) stdout promise =
     dispatch events (onData buffer stdout) promise"
| "dispatch (StdoutEnd # events) stdout promise =
     dispatch events stdout (settle (Resolved stdout) promise)"
| "dispatch (ChildError err # events) stdout promise = dispatch events stdout promise"
| "dispatch (ChildExit code # events) stdout promise = dispatch events stdout promise"

definition execute ::
  "(string \<Rightarrow> string list \<Rightarrow> spawn_result) \<Rightarrow> string \<Rightarrow> string list \<Rightarrow> string list promise" where
  "execute spawn command args =
     (case spawn command args of
        SpawnReturns events \<Rightarrow> dispatch events [] Pending
      | SpawnThrows e \<Rightarrow> settle (Rejected e) Pending)"

subsection \<open>Watching\<close>

text \<open>
  The runtime keeps the promises created so far (a promise is its index), the watchers
  that \<open>fs.watch\<close> returned (a watcher is its index) and, for \<open>fs.watchFile\<close>, the
  listeners of every polled path. Every listener the helper creates is a function that
  resolves the promise created with it, either with an object made of the arguments of
  the call or with nothing; the promise tells such functions apart, as the identity of
  the function object does in JavaScript.
\<close>

datatype payload = ChangeEvent string string | StatsPair stats stats | Undefined

datatype listener = ResolveWithArgs nat | ResolveVoid nat

record fs_watcher =
  w_path :: string
  w_listener :: listener
  w_closed :: bool

record runtime =
  promises :: "payload promise list"
  fsWatchers :: "fs_watcher list"
  statWatchers :: "(string \<times> listener list) list"

record watch_options =
  recursive :: "bool option"
  persistent :: "bool option"
  interval :: "nat option"

definition newPromise :: "runtime \<Rightarrow> nat \<times> runtime" where
  "newPromise rt = (length (promises rt), rt\<lparr>promises := promises rt @ [Pending]\<rparr>)"

definition settlePromise :: "nat \<Rightarrow> payload promise \<Rightarrow> runtime \<Rightarrow> runtime" where
  "settlePromise p outcome rt =
     (if p < length (promises rt)
      then rt\<lparr>promises := (promises rt)[p := settle outcome (promises rt ! p)]\<rparr>
      else rt)"

fun invoke :: "listener \<Rightarrow> payload \<Rightarrow> runtime \<Rightarrow> runtime" where
  "invoke (ResolveWithArgs p) args rt = settlePromise p (Resolved args) rt"
| "invoke (ResolveVoid p) args rt = settlePromise p (Resolved Undefined) rt"

text \<open>\<open>fs.watch\<close> raises when the path does not name anything, and returns the watcher otherwise.\<close>

definition fs_watch ::
  "file_system \<Rightarrow> string \<Rightarrow> watch_options \<Rightarrow> listener \<Rightarrow> runtime \<Rightarrow> (error + nat) \<times> runtime" where
  "fs_watch fs path options l rt =
     (case fs_access fs path of
        Inl err \<Rightarrow> (Inl err, rt)
      | Inr u \<Rightarrow>
          (Inr (length (fsWatchers rt)),
           rt\<lparr>fsWatchers := fsWatchers rt @ [\<lparr>w_path = path, w_listener = l, w_closed = False\<rparr>]\<rparr>))"

text \<open>\<open>watcher.close()\<close>: the watcher delivers no event from then on.\<close>

definition watcher_close :: "nat \<Rightarrow> runtime \<Rightarrow> runtime" where
  "watcher_close w rt =
     (if w < length (fsWatchers rt)
      then rt\<lparr>fsWatchers := (fsWatchers rt)[w := (fsWatchers rt ! w)\<lparr>w_closed := True\<rparr>]\<rparr>
      else rt)"

definition statListeners :: "runtime \<Rightarrow> string \<Rightarrow> listener list" where
  "statListeners rt path = (case map_of (statWatchers rt) path of None \<Rightarrow> [] | Some ls \<Rightarrow> ls)"

text \<open>\<open>fs.watchFile\<close> adds the listener to the listeners of the path and starts polling it.\<close>

definition fs_watchFile :: "string \<Rightarrow> watch_options \<Rightarrow> listener \<Rightarrow> runtime \<Rightarrow> runtime" where
  "fs_watchFile path options l rt =
     rt\<lparr>statWatchers := AList.update path (statListeners rt path @ [l]) (statWatchers rt)\<rparr>"

text \<open>
  \<open>fs.unwatchFile(filename, listener)\<close>: its second argument is the listener to remove,
  and it is not called. One registration of that listener (the latest) is removed from
  the listeners of the path; the polling of the path stops when no listener is left.
\<close>

definition removeListener :: "listener \<Rightarrow> listener list \<Rightarrow> listener list" where
  "removeListener l ls = rev (remove1 l (rev ls))"

definition fs_unwatchFile :: "string \<Rightarrow> listener \<Rightarrow> runtime \<Rightarrow> runtime" where
  "fs_unwatchFile path l rt =
     (case map_of (statWatchers rt) path of
        None \<Rightarrow> rt
      | Some ls \<Rightarrow>
          (let ls' = removeListener l ls
           in if ls' = [] then rt\<lparr>statWatchers := AList.delete path (statWatchers rt)\<rparr>
              else rt\<lparr>statWatchers := AList.update path ls' (statWatchers rt)\<rparr>))"

text \<open>
  What the operating system reports: a change in a watched directory (with the kind of
  event and the file name), which every open watcher of that path passes to its
  listener, and a change of the stats of a polled file, which every listener of that
  path receives.
\<close>

datatype os_event = DirChange string string string | FileChange string stats stats

fun deliver :: "os_event \<Rightarrow> runtime \<Rightarrow> runtime" where
  "deliver (DirChange path event filename) rt =
     fold (\<lambda>w. if w_path w = path \<and> \<not> w_closed w
                then invoke (w_listener w) (ChangeEvent event filename) else id)
       (fsWatchers rt) rt"
| "deliver (FileChange path current previous) rt =
     fold (\<lambda>l. invoke l (StatsPair current previous)) (statListeners rt path) rt"

definition run :: "os_event list \<Rightarrow> runtime \<Rightarrow> runtime" where
  "run events rt = fold deliver events rt"

text \<open>
  The value \<open>watchDir\<close> returns: the promise, and the variable \<open>watcher\<close> that its
  \<open>abort\<close> closes over (\<open>None\<close> while it is undefined). An exception of \<open>fs.watch\<close>
  inside the executor rejects the promise.
\<close>

record dir_watch =
  dw_promise :: nat
  dw_watcher :: "nat option"

definition watchDir ::
  "fileSystemHelper \<Rightarrow> string \<Rightarrow> watch_options \<Rightarrow> file_system \<Rightarrow> runtime \<Rightarrow> dir_watch \<times> runtime" where
  "watchDir this dirPath options fs rt =
     (let (promise, rt) = newPromise rt
      in case fs_watch fs (resolvePath this dirPath) options (ResolveWithArgs promise) rt of
           (Inr watcher, rt) \<Rightarrow> (\<lparr>dw_promise = promise, dw_watcher = Some watcher\<rparr>, rt)
         | (Inl err, rt) \<Rightarrow>
             (\<lparr>dw_promise = promise, dw_watcher = None\<rparr>, settlePromise promise (Rejected err) rt))"

text \<open>
  \<open>abort\<close> of \<open>watchDir\<close> is an \<open>async\<close> function: its result is a new promise, resolved
  when the body returns.
\<close>

definition watchDir_abort :: "dir_watch \<Rightarrow> runtime \<Rightarrow> nat \<times> runtime" where
  "watchDir_abort w rt =
     (let rt = (case dw_watcher w of Some watcher \<Rightarrow> watcher_close watcher rt | None \<Rightarrow> rt);
          (result, rt) = newPromise rt
      in (result, settlePromise result (Resolved Undefined) rt))"

text \<open>
  The value \<open>watchFile\<close> returns: the promise, and \<open>this\<close> and \<open>filePath\<close> that its
  \<open>abort\<close> closes over.
\<close>

record file_watch =
  fw_promise :: nat
  fw_this :: fileSystemHelper
  fw_filePath :: string

definition watchFile ::
  "fileSystemHelper \<Rightarrow> string \<Rightarrow> watch_options \<Rightarrow> runtime \<Rightarrow> file_watch \<times> runtime" where
  "watchFile this filePath options rt =
     (let (promise, rt) = newPromise rt;
          rt = fs_watchFile (resolvePath this filePath) options (ResolveWithArgs promise) rt
      in (\<lparr>fw_promise = promise, fw_this = this, fw_filePath = filePath\<rparr>, rt))"

definition watchFile_abort :: "file_watch \<Rightarrow> runtime \<Rightarrow> nat \<times> runtime" where
  "watchFile_abort w rt =
     (let (result, rt) = newPromise rt;
          rt = fs_unwatchFile (resolvePath (fw_this w) (fw_filePath w)) (ResolveVoid result) rt
      in (result, rt))"

section \<open>A file system to run the methods on\<close>

text \<open>
  The directory \<open>home\<close> holds \<open>a.txt\<close>, \<open>b.md\<close> and the directory \<open>sub\<close>, which holds
  \<open>c.txt\<close>; the helper is rooted at \<open>home\<close>.
\<close>

definition example_fs :: file_system where
  "example_fs =
     [([''home''], DirNode rwx),
      ([''home'', ''a.txt''], FileNode rw ''alpha''),
      ([''home'', ''b.md''], FileNode rw ''beta''),
      ([''home'', ''sub''], DirNode rwx),
      ([''home'', ''sub'', ''c.txt''], FileNode rw ''gamma'')]"

definition example_helper :: fileSystemHelper where
  "example_helper = \<lparr>rootPath = Some ''home''\<rparr>"

text \<open>
  A \<open>JSON\<close> object for the three literal values, to run the JSON methods on.
\<close>

datatype json_literal = JNull | JTrue | JFalse

definition literal_JSON :: "json_literal json_object" where
  "literal_JSON =
     \<lparr>stringify =
        (\<lambda>v. case v of JNull \<Rightarrow> ''null'' | JTrue \<Rightarrow> ''true'' | JFalse \<Rightarrow> ''false''),
      parse =
        (\<lambda>s. if s = ''null'' then Inr JNull else if s = ''true'' then Inr JTrue
              else if s = ''false'' then Inr JFalse else Inl SyntaxError)\<rparr>"

section \<open>The listing, as the contract words it\<close>

text \<open>
  The contract of the directory listing speaks of entries that are replaced by the
  listing of their directory, with the names of the children prefixed, of a flattened
  list, and of a last filter. These definitions say it with \<open>map\<close> and \<open>filter\<close>; the
  loops of the methods are compared with them below.
\<close>

definition prefixed :: "string \<Rightarrow> dirent \<Rightarrow> dirent" where
  "prefixed parent child = child\<lparr>name := join [parent, name child]\<rparr>"

text \<open>The lists of a list of outcomes, flattened; the first error is the outcome.\<close>

fun collect :: "(error + 'a list) list \<Rightarrow> error + 'a list" where
  "collect [] = Inr []"
| "collect (Inl err # rest) = Inl err"
| "collect (Inr xs # rest) =
     (case collect rest of Inl err \<Rightarrow> Inl err | Inr ys \<Rightarrow> Inr (xs @ ys))"

text \<open>
  What stands for an entry in the expanded list: for a directory the listing of its
  children, renamed, and the entry itself for anything else.
\<close>

definition replaced ::
  "(dirent \<Rightarrow> error + dirent list) \<Rightarrow> dirent \<Rightarrow> error + dirent list" where
  "replaced listChildren file =
     (if isDirectory file
      then (case listChildren file of
              Inl err \<Rightarrow> Inl err
            | Inr childrenFiles \<Rightarrow> Inr (map (prefixed (name file)) childrenFiles))
      else Inr [file])"

definition lastFilter :: "bool \<Rightarrow> bool \<Rightarrow> dirent list \<Rightarrow> dirent list" where
  "lastFilter files dirs entries =
     filter (\<lambda>file. (files \<longrightarrow> isFile file) \<and> (dirs \<longrightarrow> isDirectory file)) entries"

text \<open>The example file system with one more entry in \<open>home\<close>, a socket named \<open>pipe\<close>.\<close>

definition other_fs :: file_system where
  "other_fs = example_fs @ [([''home'', ''pipe''], OtherNode)]"

text \<open>
  The example file system with one more entry in \<open>home\<close>, a directory named \<open>locked\<close>
  that the process may neither list nor search nor change.
\<close>

definition locked_fs :: file_system where
  "locked_fs =
     example_fs @
     [([''home'', ''locked''],
       DirNode \<lparr>readable = False, writable = False, searchable = False\<rparr>)]"

section \<open>Paths that can take a file\<close>



section \<open>Runtime states\<close>

text \<open>The runtime before any promise or watcher exists, and watch options with nothing set.\<close>

definition empty_runtime :: runtime where
  "empty_runtime = \<lparr>promises = [], fsWatchers = [], statWatchers = []\<rparr>"

definition no_options :: watch_options where
  "no_options = \<lparr>recursive = None, persistent = None, interval = None\<rparr>"

text \<open>The promise a listener resolves.\<close>

fun target :: "listener \<Rightarrow> nat" where
  "target (ResolveWithArgs p) = p"
| "target (ResolveVoid p) = p"

text \<open>
  In a runtime that the methods have built, every registered listener resolves a
  promise that exists.
\<close>

definition known_promises :: "runtime \<Rightarrow> bool" where
  "known_promises rt =
     ((\<forall>w \<in> set (fsWatchers rt). target (w_listener w) < length (promises rt)) \<and>
      (\<forall>(path, ls) \<in> set (statWatchers rt). \<forall>l \<in> set ls. target l < length (promises rt)))"

text \<open>No open watcher and no polled path has a listener that resolves the promise \<open>p\<close>.\<close>

definition silent :: "nat \<Rightarrow> runtime \<Rightarrow> bool" where
  "silent p rt =
     ((\<forall>w \<in> set (fsWatchers rt). \<not> w_closed w \<longrightarrow> target (w_listener w) \<noteq> p) \<and>
      (\<forall>(path, ls) \<in> set (statWatchers rt). \<forall>l \<in> set ls. target l \<noteq> p))"

text \<open>The lines of an output that are not empty, and the \<open>exit\<close> events.\<close>

definition nonEmptyLines :: "string \<Rightarrow> string list" where
  "nonEmptyLines out = filter (\<lambda>line. line \<noteq> []) (splitOn (CHR 0x0A) out)"

fun isExit :: "child_event \<Rightarrow> bool" where
  "isExit (ChildExit code) = True"
| "isExit event = False"

section \<open>Properties\<close>

declare readDir.simps [simp del] readDirSync.simps [simp del]

subsection \<open>The asynchronous listing and the synchronous one\<close>

lemma awaitEachFile_iff:
  assumes "\<And>entry c. readChildren entry = Resolved c \<longleftrightarrow> readChildrenSync entry = Inr c"
  shows "awaitEachFile readChildren entries foundFiles = Completed v \<longleftrightarrow>
         forEachFile readChildrenSync entries foundFiles = Inr v"
proof (induction entries arbitrary: foundFiles)
  case Nil
  show ?case by simp
next
  case (Cons entry entries)
  show ?case
  proof (cases "isDirectory entry")
    case False
    with Cons show ?thesis by simp
  next
    case True
    show ?thesis
    proof (cases "readChildrenSync entry")
      case (Inr c)
      with assms have "readChildren entry = Resolved c" by simp
      with True Inr Cons show ?thesis by (simp add: await_def)
    next
      case (Inl err)
      with assms have "\<And>c. readChildren entry \<noteq> Resolved c" by simp
      then have "awaitEachFile readChildren (entry # entries) foundFiles \<noteq> Completed v"
        using True by (cases "readChildren entry") (auto simp: await_def)
      with True Inl show ?thesis by simp
    qed
  qed
qed

lemma readDir_resolved_iff:
  "readDir this fs dirPath options = Resolved v \<longleftrightarrow>
   readDirSync this fs dirPath options = Inr v"
proof (induction this fs dirPath options arbitrary: v rule: readDir.induct)
  case (1 this fs dirPath options)
  show ?case
  proof (cases "fs_readdir fs (resolvePath this dirPath)")
    case (Inl err)
    then show ?thesis
      by (subst readDir.simps, subst readDirSync.simps) (simp add: settle_def)
  next
    case (Inr files)
    show ?thesis
    proof (cases "recursiveLevels options")
      case None
      with Inr show ?thesis
        by (subst readDir.simps, subst readDirSync.simps) (auto simp: settle_def Let_def)
    next
      case (Some m)
      show ?thesis
      proof (cases m)
        case 0
        with Inr Some show ?thesis
          by (subst readDir.simps, subst readDirSync.simps) (auto simp: settle_def Let_def)
      next
        case (Suc n)
        define child where "child = (\<lambda>file::dirent. readDir this fs (join [dirPath, name file])
                 \<lparr>acceptExtensions = acceptExtensions options, recursiveLevels = Some n,
                  onlyFiles = False, onlyDirs = False\<rparr>)"
        define childSync where "childSync = (\<lambda>file::dirent. readDirSync this fs (join [dirPath, name file])
                 \<lparr>acceptExtensions = acceptExtensions options, recursiveLevels = Some n,
                  onlyFiles = False, onlyDirs = False\<rparr>)"
        have ch: "child entry = Resolved c \<longleftrightarrow> childSync entry = Inr c" for entry c
          unfolding child_def childSync_def by (rule "1.IH"[OF Inr refl Some Suc])
        define accepted where "accepted =
            (case acceptExtensions options of None \<Rightarrow> files
             | Some extensions \<Rightarrow> filter (acceptFile extensions) files)"
        have loop: "awaitEachFile child accepted [] = Completed found \<longleftrightarrow>
                    forEachFile childSync accepted [] = Inr found" for found
          using ch by (rule awaitEachFile_iff)
        have l: "readDir this fs dirPath options =
            (case awaitEachFile child accepted [] of
               Threw err \<Rightarrow> Pending | Suspended \<Rightarrow> Pending
             | Completed found \<Rightarrow> Resolved
                 (let acceptedFiles = (if onlyFiles options then filter isFile found else found)
                  in if onlyDirs options then filter isDirectory acceptedFiles else acceptedFiles))"
          by (subst readDir.simps)
             (simp add: Inr Some Suc child_def accepted_def settle_def Let_def
                split: completion.splits)
        have r: "readDirSync this fs dirPath options =
            (case forEachFile childSync accepted [] of
               Inl err \<Rightarrow> Inl err
             | Inr found \<Rightarrow> Inr
                 (let acceptedFiles = (if onlyFiles options then filter isFile found else found)
                  in if onlyDirs options then filter isDirectory acceptedFiles else acceptedFiles))"
          by (subst readDirSync.simps)
             (simp add: Inr Some Suc childSync_def accepted_def Let_def split: sum.splits)
        show ?thesis
        proof (cases "forEachFile childSync accepted []")
          case (Inr found)
          with loop have "awaitEachFile child accepted [] = Completed found" by simp
          with Inr show ?thesis by (simp add: l r)
        next
          case (Inl err)
          with loop have "\<And>found. awaitEachFile child accepted [] \<noteq> Completed found" by simp
          then have "readDir this fs dirPath options = Pending"
            by (cases "awaitEachFile child accepted []") (auto simp: l)
          with Inl show ?thesis by (simp add: r)
        qed
      qed
    qed
  qed
qed

lemma readDir_by_readDirSync:
  "readDir this fs dirPath options =
     (case fs_readdir fs (resolvePath this dirPath) of
        Inl err \<Rightarrow> Rejected err
      | Inr files \<Rightarrow>
          (case readDirSync this fs dirPath options of
             Inr v \<Rightarrow> Resolved v
           | Inl err \<Rightarrow> Pending))"
proof (cases "fs_readdir fs (resolvePath this dirPath)")
  case (Inl err)
  then show ?thesis by (subst readDir.simps) (simp add: settle_def)
next
  case (Inr files)
  show ?thesis
  proof (cases "readDirSync this fs dirPath options")
    case v: (Inr v)
    with readDir_resolved_iff[of this fs dirPath options v] Inr show ?thesis by simp
  next
    case (Inl err)
    with readDir_resolved_iff[of this fs dirPath options]
    have nr: "\<And>v. readDir this fs dirPath options \<noteq> Resolved v" by simp
    have "readDir this fs dirPath options \<noteq> Rejected e" for e
      by (subst readDir.simps)
         (simp add: Inr settle_def Let_def split: completion.splits option.splits nat.splits)
    with nr have "readDir this fs dirPath options = Pending"
      by (cases "readDir this fs dirPath options") auto
    with Inr Inl show ?thesis by simp
  qed
qed

text \<open>
  A directory that cannot be listed, below the directory that is listed with recursion:
  \<open>readDirSync\<close> raises the error, and the promise of \<open>readDir\<close> stays pending.
\<close>

lemma readDir_child_failure:
  "readDirSync example_helper locked_fs ''.''
     \<lparr>acceptExtensions = None, recursiveLevels = Some (Suc 0),
      onlyFiles = False, onlyDirs = False\<rparr> = Inl EACCES \<and>
   readDir example_helper locked_fs ''.''
     \<lparr>acceptExtensions = None, recursiveLevels = Some (Suc 0),
      onlyFiles = False, onlyDirs = False\<rparr> = Pending"
  by code_simp

subsection \<open>Creating a directory where the path already names something\<close>

lemma mkdirp_existing:
  "walk fs cur segs = Inr p \<Longrightarrow> lookup fs p = Some node \<Longrightarrow> lookup fs cur \<noteq> None \<Longrightarrow>
   mkdirp cur segs fs = ((case node of DirNode m \<Rightarrow> Inr () | _ \<Rightarrow> Inl EEXIST), fs)"
proof (induction segs arbitrary: cur)
  case Nil
  then show ?case by (auto split: inode.splits)
next
  case (Cons seg segs)
  from Cons.prems obtain m where cur: "lookup fs cur = Some (DirNode m)" and ok: "searchable m"
    by (auto split: option.splits inode.splits if_splits)
  show ?case
  proof (cases "seg = [] \<or> seg = ''.''")
    case True
    with Cons cur ok show ?thesis by auto
  next
    case False
    show ?thesis
    proof (cases "seg = ''..''")
      case True
      with Cons.prems cur ok False have w: "walk fs (butlast cur) segs = Inr p" by auto
      have "lookup fs (butlast cur) \<noteq> None"
        using w Cons.prems(2) by (cases segs) (auto split: option.splits)
      with Cons.IH[OF w Cons.prems(2)] cur ok True show ?thesis by auto
    next
      case nd: False
      with Cons.prems cur ok False have short: "\<not> 255 < length seg"
        and w: "walk fs (cur @ [seg]) segs = Inr p"
        by (auto split: if_splits)
      have ex: "lookup fs (cur @ [seg]) \<noteq> None"
        using w Cons.prems(2) by (cases segs) (auto split: option.splits)
      with Cons.IH[OF w Cons.prems(2)] cur ok False nd short show ?thesis by auto
    qed
  qed
qed

subsection \<open>Reading what was written\<close>







text \<open>A write that fails leaves the file system as it is.\<close>

lemma write_failed:
  "fs_writeFile path data options fs = (Inl err, fs') \<Longrightarrow> fs' = fs"
  by (auto simp: fs_writeFile_def
        split: sum.splits option.splits inode.splits flag.splits if_splits)


subsection \<open>A promise-returning method and its blocking twin\<close>

lemma settled_simps [simp]:
  "settled (Inl err) = Rejected err"
  "settled (Inr v) = Resolved v"
  by (simp_all add: settled_def)

lemma mkdir_settled:
  "mkdir this dirPath fs =
     (case fs_mkdir_recursive (resolvePath this dirPath) fs of (r, fs') \<Rightarrow> (settled r, fs'))"
  by (auto simp: mkdir_def settle_def split: prod.splits sum.splits)

lemma writeFile_settled:
  "writeFile this filePath data options fs =
     (case writeFileSync this filePath data options fs of (r, fs') \<Rightarrow> (settled r, fs'))"
  by (auto simp: writeFile_def writeFileSync_def settle_def Let_def split: prod.splits sum.splits)

lemma readFile_settled: "readFile this filePath fs = settled (readFileSync this filePath fs)"
  by (auto simp: readFile_def readFileSync_def settle_def split: sum.splits)

lemma readTXTFile_settled:
  "readTXTFile this filePath fs = settled (readTXTFileSync this filePath fs)"
  by (auto simp: readTXTFile_def readTXTFileSync_def readFile_settled async_def await_def
        split: sum.splits)

lemma readJSONFile_settled:
  "readJSONFile JSON this filePath fs = settled (readJSONFileSync JSON this filePath fs)"
  by (auto simp: readJSONFile_def readJSONFileSync_def readFile_settled async_def await_def
        split: sum.splits)

lemma rm_settled:
  "rm this filePath fs = (case rmSync this filePath fs of (r, fs') \<Rightarrow> (settled r, fs'))"
  by (auto simp: rm_def rmSync_def settle_def split: prod.splits sum.splits)

lemma touch_settled:
  "touch this filePath options fs =
     (case touchSync this filePath options fs of (r, fs') \<Rightarrow> (settled r, fs'))"
  by (simp add: touch_def touchSync_def writeFile_settled Let_def)

subsection \<open>Existence checks\<close>

text \<open>
  On every string the synchronous checks return a boolean and \<open>fileStatsSync\<close> returns
  the stats or \<open>null\<close>, and they give \<open>false\<close> and \<open>null\<close> whenever the call fails. On a
  path that passes the check of the path, the asynchronous checks resolve with a
  boolean, \<open>false\<close> whenever the system call fails.
\<close>

lemma existence_checks_on_checked_paths:
  "(\<exists>b. fileExistsSync this optPath fs = Inr b) \<and>
   (\<exists>b. dirExistsSync this filePath fs = Inr b) \<and>
   (\<exists>r. fileStatsSync this filePath fs = Inr r) \<and>
   (\<forall>err. fs_access fs (resolvePath this filePath) = Inl err \<longrightarrow>
      fileExistsSync this (Some filePath) fs = Inr False) \<and>
   (\<forall>err. fs_stat fs (resolvePath this filePath) = Inl err \<longrightarrow>
      dirExistsSync this filePath fs = Inr False \<and>
      fileStatsSync this filePath fs = Inr None) \<and>
   (validatePath (resolvePath this filePath) = None \<longrightarrow>
      (\<exists>b. fileExists this filePath fs = Resolved b) \<and>
      (\<exists>b. dirExists this filePath fs = Resolved b) \<and>
      (\<forall>err. fs_access fs (resolvePath this filePath) = Inl err \<longrightarrow>
         fileExists this filePath fs = Resolved False) \<and>
      (\<forall>err. fs_stat fs (resolvePath this filePath) = Inl err \<longrightarrow>
         dirExists this filePath fs = Resolved False))"
  by (auto simp: fileExists_def fileExistsSync_def dirExists_def dirExistsSync_def
        fileStatsSync_def settle_def split: sum.splits option.splits)

text \<open>
  Claim C7 does not hold of the code. On a path with a NUL character \<open>fs.access\<close> and
  \<open>fs.stat\<close> raise \<open>ERR_INVALID_ARG_VALUE\<close> inside the executor, which takes \<open>resolve\<close>
  only, so the promises of \<open>fileExists\<close> and \<open>dirExists\<close> reject. The synchronous
  checks catch the same error: \<open>fileExistsSync\<close> and \<open>dirExistsSync\<close> return \<open>false\<close>
  and \<open>fileStatsSync\<close> returns \<open>null\<close>, as the claim says.
\<close>

theorem existence_checks_reject_invalid_path:
  "fileExists example_helper [CHR ''a'', CHR 0x00] example_fs =
     Rejected ERR_INVALID_ARG_VALUE \<and>
   dirExists example_helper [CHR ''a'', CHR 0x00] example_fs =
     Rejected ERR_INVALID_ARG_VALUE \<and>
   fileExistsSync example_helper (Some [CHR ''a'', CHR 0x00]) example_fs = Inr False \<and>
   dirExistsSync example_helper [CHR ''a'', CHR 0x00] example_fs = Inr False \<and>
   fileStatsSync example_helper [CHR ''a'', CHR 0x00] example_fs = Inr None"
  by code_simp

subsection \<open>\<open>mkdirSync\<close> on a path that exists\<close>



subsection \<open>Synchronous and asynchronous variants\<close>

text \<open>
  Claim C3, as stated, fails: on a path that names nothing \<open>rmdirSync\<close> raises \<open>ENOENT\<close>
  while \<open>rmdir\<close> resolves (with \<open>false\<close>) instead of rejecting, and on the regular file
  \<open>home/a.txt\<close> \<open>mkdirSync\<close> returns while \<open>mkdir\<close> rejects with \<open>EEXIST\<close>.
\<close>

theorem sync_async_differ:
  "rmdirSync example_helper ''nowhere'' example_fs = (Inl ENOENT, example_fs) \<and>
   rmdir example_helper ''nowhere'' example_fs = (Resolved False, example_fs) \<and>
   mkdirSync example_helper ''a.txt'' example_fs = (Inr (), example_fs) \<and>
   mkdir example_helper ''a.txt'' example_fs = (Rejected EEXIST, example_fs)"
  by code_simp

text \<open>
  Claim C3, amended. For \<open>writeFile\<close>, \<open>readFile\<close>, \<open>readTXTFile\<close>, \<open>readJSONFile\<close>,
  \<open>rm\<close> and \<open>touch\<close>, on the same file system and arguments, the asynchronous variant
  resolves with the value the synchronous variant returns and rejects with the error it
  raises, and both leave the same file system. \<open>readDir\<close> resolves with a list exactly
  when \<open>readDirSync\<close> returns it, and when the listing of the directory itself fails
  \<open>readDir\<close> rejects with the error that \<open>readDirSync\<close> raises. \<open>mkdir\<close> and
  \<open>mkdirSync\<close> have the same outcome when the resolved path names nothing or names a
  directory. On a path that passes the check of the path (a string without a NUL
  character), \<open>fileExists\<close> and \<open>dirExists\<close> resolve with the boolean that
  \<open>fileExistsSync\<close> and \<open>dirExistsSync\<close> return, and \<open>rmdir\<close> resolves with \<open>true\<close>
  where \<open>rmdirSync\<close> returns and with \<open>false\<close> where \<open>rmdirSync\<close> raises, both
  leaving the same file system.
\<close>

theorem sync_async_agree:
  "writeFile this path data wopts fs =
     (case writeFileSync this path data wopts fs of (r, fs') \<Rightarrow> (settled r, fs')) \<and>
   readFile this path fs = settled (readFileSync this path fs) \<and>
   readTXTFile this path fs = settled (readTXTFileSync this path fs) \<and>
   readJSONFile JSON this path fs = settled (readJSONFileSync JSON this path fs) \<and>
   rm this path fs = (case rmSync this path fs of (r, fs') \<Rightarrow> (settled r, fs')) \<and>
   touch this path wopts fs =
     (case touchSync this path wopts fs of (r, fs') \<Rightarrow> (settled r, fs')) \<and>
   (\<forall>v. readDir this fs path ropts = Resolved v \<longleftrightarrow>
        readDirSync this fs path ropts = Inr v) \<and>
   (\<forall>err. fs_readdir fs (resolvePath this path) = Inl err \<longrightarrow>
        readDir this fs path ropts = Rejected err \<and>
        readDirSync this fs path ropts = Inl err) \<and>
   (\<not> fs_existsSync fs (resolvePath this path) \<or>
    (\<exists>st. fs_stat fs (resolvePath this path) = Inr st \<and> st_type st = Directory) \<longrightarrow>
      mkdir this path fs =
        (case mkdirSync this path fs of (r, fs') \<Rightarrow> (settled r, fs'))) \<and>
   (validatePath (resolvePath this path) = None \<longrightarrow>
      fileExists this path fs = settled (fileExistsSync this (Some path) fs) \<and>
      dirExists this path fs = settled (dirExistsSync this path fs) \<and>
      rmdir this path fs =
        (case rmdirSync this path fs of
           (Inl err, fs') \<Rightarrow> (Resolved False, fs')
         | (Inr u, fs') \<Rightarrow> (Resolved True, fs')))"
proof (intro conjI impI allI)
  show "writeFile this path data wopts fs =
     (case writeFileSync this path data wopts fs of (r, fs') \<Rightarrow> (settled r, fs'))"
    by (rule writeFile_settled)
  show "readFile this path fs = settled (readFileSync this path fs)"
    by (rule readFile_settled)
  show "readTXTFile this path fs = settled (readTXTFileSync this path fs)"
    by (rule readTXTFile_settled)
  show "readJSONFile JSON this path fs = settled (readJSONFileSync JSON this path fs)"
    by (rule readJSONFile_settled)
  show "rm this path fs = (case rmSync this path fs of (r, fs') \<Rightarrow> (settled r, fs'))"
    by (rule rm_settled)
  show "touch this path wopts fs =
     (case touchSync this path wopts fs of (r, fs') \<Rightarrow> (settled r, fs'))"
    by (rule touch_settled)
  show "readDir this fs path ropts = Resolved v \<longleftrightarrow>
        readDirSync this fs path ropts = Inr v" for v
    by (rule readDir_resolved_iff)
next
  fix err
  assume e: "fs_readdir fs (resolvePath this path) = Inl err"
  then show "readDir this fs path ropts = Rejected err"
    by (simp add: readDir_by_readDirSync)
  from e show "readDirSync this fs path ropts = Inl err"
    by (subst readDirSync.simps) simp
next
  assume a: "\<not> fs_existsSync fs (resolvePath this path) \<or>
    (\<exists>st. fs_stat fs (resolvePath this path) = Inr st \<and> st_type st = Directory)"
  show "mkdir this path fs =
        (case mkdirSync this path fs of (r, fs') \<Rightarrow> (settled r, fs'))"
  proof (cases "fs_existsSync fs (resolvePath this path)")
    case False
    then show ?thesis by (simp add: mkdir_settled mkdirSync_def)
  next
    case True
    with a obtain st where
      st: "fs_stat fs (resolvePath this path) = Inr st" "st_type st = Directory"
      by auto
    then obtain p node where
        v: "validatePath (resolvePath this path) = None"
      and ne: "resolvePath this path \<noteq> []"
      and short: "\<not> 4095 < length (resolvePath this path)"
      and w: "walk fs [] (splitOn CHR ''/'' (resolvePath this path)) = Inr p"
      and l: "lookup fs p = Some node" and n: "inode_stats node = st"
      by (auto simp: fs_stat_def resolve_def split: sum.splits option.splits if_splits)
    from n st obtain m where "node = DirNode m" by (cases node) auto
    with mkdirp_existing[OF w l] v ne short True show ?thesis
      by (simp add: mkdir_settled mkdirSync_def fs_mkdir_recursive_def lookup_def)
  qed
next
  assume v: "validatePath (resolvePath this path) = None"
  then show "fileExists this path fs = settled (fileExistsSync this (Some path) fs)"
    by (simp add: fileExists_def fileExistsSync_def settle_def split: sum.splits)
  from v show "dirExists this path fs = settled (dirExistsSync this path fs)"
    by (simp add: dirExists_def dirExistsSync_def settle_def split: sum.splits)
  from v show "rmdir this path fs =
     (case rmdirSync this path fs of
        (Inl err, fs') \<Rightarrow> (Resolved False, fs')
      | (Inr u, fs') \<Rightarrow> (Resolved True, fs'))"
    by (simp add: rmdir_def rmdirSync_def settle_def split: prod.splits sum.splits)
qed

text \<open>
  Both \<open>mkdir\<close> variants create the directory \<open>home/new\<close>, which did not exist;
  before that the existence checks on it give \<open>false\<close>, both \<open>rmdir\<close> variants fail to
  remove it and \<open>readDir\<close> on it rejects with \<open>ENOENT\<close>.
\<close>

theorem sync_async_agree_witness:
  "\<not> fs_existsSync example_fs (resolvePath example_helper ''new'') \<and>
   validatePath (resolvePath example_helper ''new'') = None \<and>
   mkdirSync example_helper ''new'' example_fs =
     (Inr (), example_fs @ [([''home'', ''new''], DirNode rwx)]) \<and>
   mkdir example_helper ''new'' example_fs =
     (Resolved (), example_fs @ [([''home'', ''new''], DirNode rwx)]) \<and>
   fileExistsSync example_helper (Some ''new'') example_fs = Inr False \<and>
   fileExists example_helper ''new'' example_fs = Resolved False \<and>
   rmdirSync example_helper ''new'' example_fs = (Inl ENOENT, example_fs) \<and>
   rmdir example_helper ''new'' example_fs = (Resolved False, example_fs) \<and>
   fs_readdir example_fs (resolvePath example_helper ''new'') = Inl ENOENT \<and>
   readDir example_helper example_fs ''new''
     \<lparr>acceptExtensions = None, recursiveLevels = None,
      onlyFiles = False, onlyDirs = False\<rparr> = Rejected ENOENT"
proof -
  have e: "\<not> fs_existsSync example_fs (resolvePath example_helper ''new'')"
    by code_simp
  have v: "validatePath (resolvePath example_helper ''new'') = None"
    by code_simp
  have m: "mkdirSync example_helper ''new'' example_fs =
      (Inr (), example_fs @ [([''home'', ''new''], DirNode rwx)])"
    by code_simp
  have f: "fileExistsSync example_helper (Some ''new'') example_fs = Inr False"
    by code_simp
  have d: "rmdirSync example_helper ''new'' example_fs = (Inl ENOENT, example_fs)"
    by code_simp
  have r: "fs_readdir example_fs (resolvePath example_helper ''new'') = Inl ENOENT"
    by code_simp
  from e v m f d r
    sync_async_agree
      [of example_helper "''new''" "[]" None example_fs literal_JSON
          "\<lparr>acceptExtensions = None, recursiveLevels = None,
            onlyFiles = False, onlyDirs = False\<rparr>"]
  show ?thesis by simp
qed

subsection \<open>Touch\<close>





subsection \<open>Writing and reading a structured value\<close>




subsection \<open>The recursive listing\<close>

lemma pushChildren_eq: "pushChildren dirName childrenFiles foundFiles = foundFiles @ map (prefixed dirName) childrenFiles"
  by (induction childrenFiles arbitrary: foundFiles) (auto simp: prefixed_def)

lemma forEachFile_eq:
  "forEachFile readChildren files foundFiles =
     (case collect (map (replaced readChildren) files) of
        Inl err \<Rightarrow> Inl err
      | Inr found \<Rightarrow> Inr (foundFiles @ found))"
proof (induction files arbitrary: foundFiles)
  case Nil
  show ?case by simp
next
  case (Cons entry entries)
  show ?case
  proof (cases "isDirectory entry")
    case True
    show ?thesis
    proof (cases "readChildren entry")
      case (Inl err)
      with True show ?thesis by (simp add: replaced_def)
    next
      case (Inr childrenFiles)
      with True show ?thesis
        by (simp add: replaced_def Cons.IH pushChildren_eq split: sum.splits)
    qed
  next
    case False
    then show ?thesis by (simp add: replaced_def Cons.IH split: sum.splits)
  qed
qed

lemma acceptFile_iff:
  "acceptFile extensions file =
     (isFile file \<longrightarrow> (\<exists>e \<in> set extensions. endsWith (name file) (''.'' @ e)))"
  by (auto simp: acceptFile_def list_ex_iff)

lemma lastFilter_twice:
  "(if dirs then filter isDirectory (if files then filter isFile found else found)
    else (if files then filter isFile found else found)) = lastFilter files dirs found"
  by (auto simp: lastFilter_def intro: filter_cong)

text \<open>
  Claim C1, as stated, fails: the extension filter removes regular files only. The
  entry \<open>pipe\<close> is neither a directory nor a regular file, its name does not end in
  \<open>.txt\<close>, and the listing with \<open>acceptExtensions: ['txt']\<close> and \<open>recursiveLevels: 1\<close>
  keeps it.
\<close>

theorem readDir_keeps_other_entries:
  "readDir example_helper other_fs ''.''
     \<lparr>acceptExtensions = Some [''txt''], recursiveLevels = Some (Suc 0),
      onlyFiles = False, onlyDirs = False\<rparr> =
     Resolved [\<lparr>name = ''a.txt'', d_type = RegularFile\<rparr>,
               \<lparr>name = ''sub/c.txt'', d_type = RegularFile\<rparr>,
               \<lparr>name = ''pipe'', d_type = OtherType\<rparr>] \<and>
   readDirSync example_helper other_fs ''.''
     \<lparr>acceptExtensions = Some [''txt''], recursiveLevels = Some (Suc 0),
      onlyFiles = False, onlyDirs = False\<rparr> =
     Inr [\<lparr>name = ''a.txt'', d_type = RegularFile\<rparr>,
          \<lparr>name = ''sub/c.txt'', d_type = RegularFile\<rparr>,
          \<lparr>name = ''pipe'', d_type = OtherType\<rparr>] \<and>
   \<not> isDirectory \<lparr>name = ''pipe'', d_type = OtherType\<rparr> \<and>
   \<not> endsWith ''pipe'' ''.txt''"
  by code_simp

text \<open>
  Claim C1, amended. For every file system, extensions \<open>E\<close> and depth \<open>n + 1\<close>,
  \<open>readDirSync\<close> fails with the error of listing the directory, and otherwise: removes
  the regular files whose names do not end in \<open>.e\<close> for an \<open>e\<close> in \<open>E\<close> (directories and
  entries of any other type stay); replaces every remaining directory by the entries of
  its own listing at depth \<open>n\<close> with the same extensions and no other option, each
  child's name prefixed with the directory's name by a path join, the directory itself
  absent; keeps every other entry as it is; fails with the first error of a listing of
  a child; and applies \<open>onlyFiles\<close> and \<open>onlyDirs\<close> last, to the flattened list.
  \<open>readDir\<close> resolves with a list exactly when \<open>readDirSync\<close> returns that list.
\<close>

theorem readDir_listing:
  "readDirSync this fs dirPath
     \<lparr>acceptExtensions = Some E, recursiveLevels = Some (Suc n),
      onlyFiles = files, onlyDirs = dirs\<rparr> =
   (case fs_readdir fs (resolvePath this dirPath) of
      Inl err \<Rightarrow> Inl err
    | Inr entries \<Rightarrow>
        (case collect
                (map (replaced (\<lambda>file. readDirSync this fs (join [dirPath, name file])
                         \<lparr>acceptExtensions = Some E, recursiveLevels = Some n,
                          onlyFiles = False, onlyDirs = False\<rparr>))
                   (filter (\<lambda>file. isFile file \<longrightarrow>
                                (\<exists>e \<in> set E. endsWith (name file) (''.'' @ e)))
                      entries)) of
           Inl err \<Rightarrow> Inl err
         | Inr found \<Rightarrow> Inr (lastFilter files dirs found))) \<and>
   (\<forall>found.
      readDir this fs dirPath
        \<lparr>acceptExtensions = Some E, recursiveLevels = Some (Suc n),
         onlyFiles = files, onlyDirs = dirs\<rparr> = Resolved found \<longleftrightarrow>
      readDirSync this fs dirPath
        \<lparr>acceptExtensions = Some E, recursiveLevels = Some (Suc n),
         onlyFiles = files, onlyDirs = dirs\<rparr> = Inr found)"
proof (intro conjI allI)
  let ?options = "\<lparr>acceptExtensions = Some E, recursiveLevels = Some (Suc n),
      onlyFiles = files, onlyDirs = dirs\<rparr>"
  let ?child = "\<lambda>file::dirent. readDirSync this fs (join [dirPath, name file])
      \<lparr>acceptExtensions = Some E, recursiveLevels = Some n,
       onlyFiles = False, onlyDirs = False\<rparr>"
  let ?kept = "\<lambda>file::dirent. isFile file \<longrightarrow> (\<exists>e \<in> set E. endsWith (name file) (''.'' @ e))"
  show "readDirSync this fs dirPath ?options =
    (case fs_readdir fs (resolvePath this dirPath) of
       Inl err \<Rightarrow> Inl err
     | Inr entries \<Rightarrow>
         (case collect (map (replaced ?child) (filter ?kept entries)) of
            Inl err \<Rightarrow> Inl err
          | Inr found \<Rightarrow> Inr (lastFilter files dirs found)))"
  proof (cases "fs_readdir fs (resolvePath this dirPath)")
    case (Inl err)
    then show ?thesis by (subst readDirSync.simps) simp
  next
    case (Inr entries)
    have kept: "filter (acceptFile E) entries = filter ?kept entries"
      by (simp add: acceptFile_iff[abs_def])
    have loop: "forEachFile ?child (filter ?kept entries) [] =
        (case collect (map (replaced ?child) (filter ?kept entries)) of
           Inl err \<Rightarrow> Inl err
         | Inr found \<Rightarrow> Inr found)"
      by (simp add: forEachFile_eq split: sum.splits)
    show ?thesis
    proof (cases "collect (map (replaced ?child) (filter ?kept entries))")
      case failed: (Inl err)
      with loop have "forEachFile ?child (filter ?kept entries) [] = Inl err" by simp
      with failed show ?thesis
        by (subst readDirSync.simps) (simp add: Inr kept)
    next
      case listed: (Inr found)
      with loop have "forEachFile ?child (filter ?kept entries) [] = Inr found" by simp
      with listed show ?thesis
        by (subst readDirSync.simps) (simp add: Inr kept lastFilter_twice Let_def)
    qed
  qed
  show "readDir this fs dirPath ?options = Resolved found \<longleftrightarrow>
        readDirSync this fs dirPath ?options = Inr found" for found
    by (rule readDir_resolved_iff)
qed

text \<open>
  The directory \<open>home\<close> with \<open>a.txt\<close>, \<open>b.md\<close> and \<open>sub\<close> holding \<open>c.txt\<close>, listed
  with \<open>acceptExtensions: ['txt']\<close> and \<open>recursiveLevels: 1\<close>: exactly \<open>a.txt\<close> and
  \<open>sub/c.txt\<close>.
\<close>

theorem readDir_listing_witness:
  "readDir example_helper example_fs ''.''
     \<lparr>acceptExtensions = Some [''txt''], recursiveLevels = Some (Suc 0),
      onlyFiles = False, onlyDirs = False\<rparr> =
     Resolved [\<lparr>name = ''a.txt'', d_type = RegularFile\<rparr>,
               \<lparr>name = ''sub/c.txt'', d_type = RegularFile\<rparr>] \<and>
   readDirSync example_helper example_fs ''.''
     \<lparr>acceptExtensions = Some [''txt''], recursiveLevels = Some (Suc 0),
      onlyFiles = False, onlyDirs = False\<rparr> =
     Inr [\<lparr>name = ''a.txt'', d_type = RegularFile\<rparr>,
          \<lparr>name = ''sub/c.txt'', d_type = RegularFile\<rparr>]"
proof -
  let ?options = "\<lparr>acceptExtensions = Some [''txt''], recursiveLevels = Some (Suc 0),
      onlyFiles = False, onlyDirs = False\<rparr>"
  let ?found = "[\<lparr>name = ''a.txt'', d_type = RegularFile\<rparr>,
          \<lparr>name = ''sub/c.txt'', d_type = RegularFile\<rparr>]"
  note listing = readDir_listing[of example_helper example_fs "''.''" "[''txt'']" 0 False False]
  have s: "readDirSync example_helper example_fs ''.'' ?options = Inr ?found"
    by (subst listing [THEN conjunct1]) code_simp
  with listing [THEN conjunct2] have "readDir example_helper example_fs ''.'' ?options = Resolved ?found"
    by blast
  with s show ?thesis by simp
qed

subsection \<open>Events reach registered listeners only\<close>

lemma invoke_frame [simp]:
  "fsWatchers (invoke l args rt) = fsWatchers rt"
  "statWatchers (invoke l args rt) = statWatchers rt"
  "length (promises (invoke l args rt)) = length (promises rt)"
  by (cases l; simp add: settlePromise_def)+

lemma invoke_other: "target l \<noteq> p \<Longrightarrow> promises (invoke l args rt) ! p = promises rt ! p"
  by (cases l) (auto simp: settlePromise_def)

lemma fold_invoke_frame:
  "fsWatchers (fold (\<lambda>x. if c x then invoke (f x) args else id) xs rt) = fsWatchers rt \<and>
   statWatchers (fold (\<lambda>x. if c x then invoke (f x) args else id) xs rt) = statWatchers rt \<and>
   length (promises (fold (\<lambda>x. if c x then invoke (f x) args else id) xs rt)) = length (promises rt)"
  by (induction xs arbitrary: rt) auto

lemma fold_invoke_other:
  "(\<And>x. x \<in> set xs \<Longrightarrow> c x \<Longrightarrow> target (f x) \<noteq> p) \<Longrightarrow>
   promises (fold (\<lambda>x. if c x then invoke (f x) args else id) xs rt) ! p = promises rt ! p"
  by (induction xs arbitrary: rt) (auto simp: invoke_other)

lemma statListeners_subset:
  assumes "l \<in> set (statListeners rt path)"
  shows "\<exists>ls. (path, ls) \<in> set (statWatchers rt) \<and> l \<in> set ls"
proof (cases "map_of (statWatchers rt) path")
  case None
  with assms show ?thesis by (simp add: statListeners_def)
next
  case (Some ls)
  then have "(path, ls) \<in> set (statWatchers rt)" by (rule map_of_SomeD)
  with Some assms show ?thesis by (auto simp: statListeners_def)
qed

lemma deliver_frame:
  "fsWatchers (deliver ev rt) = fsWatchers rt \<and>
   statWatchers (deliver ev rt) = statWatchers rt \<and>
   length (promises (deliver ev rt)) = length (promises rt)"
proof (cases ev)
  case (DirChange path event filename)
  then show ?thesis by (simp add: fold_invoke_frame)
next
  case (FileChange path current previous)
  have "fold (\<lambda>l. invoke l (StatsPair current previous)) (statListeners rt path) rt =
        fold (\<lambda>l. if True then invoke (id l) (StatsPair current previous) else id)
          (statListeners rt path) rt"
    by simp
  with FileChange show ?thesis by (simp only: deliver.simps fold_invoke_frame)
qed

lemma deliver_silent:
  assumes "silent p rt"
  shows "promises (deliver ev rt) ! p = promises rt ! p"
proof (cases ev)
  case (DirChange path event filename)
  from assms have "\<And>w. w \<in> set (fsWatchers rt) \<Longrightarrow> w_path w = path \<and> \<not> w_closed w \<Longrightarrow>
      target (w_listener w) \<noteq> p"
    by (auto simp: silent_def)
  then show ?thesis
    unfolding DirChange deliver.simps by (rule fold_invoke_other)
next
  case (FileChange path current previous)
  have eq: "fold (\<lambda>l. invoke l (StatsPair current previous)) (statListeners rt path) rt =
        fold (\<lambda>l. if True then invoke (id l) (StatsPair current previous) else id)
          (statListeners rt path) rt"
    by simp
  from assms have "\<And>l. l \<in> set (statListeners rt path) \<Longrightarrow> True \<Longrightarrow> target (id l) \<noteq> p"
    by (auto simp: silent_def dest!: statListeners_subset)
  then show ?thesis
    unfolding FileChange deliver.simps eq by (rule fold_invoke_other)
qed

lemma silent_deliver: "silent p rt \<Longrightarrow> silent p (deliver ev rt)"
  by (simp add: silent_def deliver_frame)

lemma run_frame:
  "fsWatchers (run events rt) = fsWatchers rt \<and>
   statWatchers (run events rt) = statWatchers rt \<and>
   length (promises (run events rt)) = length (promises rt)"
  by (induction events arbitrary: rt) (simp_all add: run_def deliver_frame)

lemma run_silent: "silent p rt \<Longrightarrow> promises (run events rt) ! p = promises rt ! p"
  by (induction events arbitrary: rt) (simp_all add: run_def deliver_silent silent_deliver)


lemma set_update_cases: "x \<in> set (AList.update k v al) \<Longrightarrow> x \<in> set al \<or> x = (k, v)"
  by (induction al) (auto split: if_splits)

subsection \<open>Aborting a directory watch\<close>

text \<open>
  Claim C8. In a runtime whose listeners resolve existing promises, let \<open>watchDir\<close>
  create a watch (\<open>fs.watch\<close> returned a watcher), let any events pass that leave the
  promise of the watch pending, and let \<open>abort\<close> be called. Then the promise that
  \<open>abort\<close> returns is resolved (the call completes without error), and after every
  further sequence of events of the operating system the promise of the watch is still
  pending: it is never resolved and never rejected.
\<close>

theorem watchDir_abort_leaves_pending:
  assumes known: "known_promises rt"
    and watch: "watchDir this dirPath options fs rt = (w, rt1)"
    and created: "dw_watcher w \<noteq> None"
    and quiet: "promises (run before rt1) ! dw_promise w = Pending"
    and abort: "watchDir_abort w (run before rt1) = (result, rt2)"
  shows "promises rt2 ! result = Resolved Undefined \<and>
         (\<forall>events. promises (run events rt2) ! dw_promise w = Pending)"
proof -
  define P where "P = length (promises rt)"
  define h where "h = length (fsWatchers rt)"
  define nw where "nw = \<lparr>w_path = resolvePath this dirPath, w_listener = ResolveWithArgs P, w_closed = False\<rparr>"
  from watch created have acc: "\<exists>u. fs_access fs (resolvePath this dirPath) = Inr u"
    by (auto simp: watchDir_def newPromise_def fs_watch_def Let_def split: sum.splits)
  with watch have w: "w = \<lparr>dw_promise = P, dw_watcher = Some h\<rparr>"
    and rt1: "rt1 = rt\<lparr>promises := promises rt @ [Pending], fsWatchers := fsWatchers rt @ [nw]\<rparr>"
    by (auto simp: watchDir_def newPromise_def fs_watch_def Let_def P_def h_def nw_def)
  define rt1' where "rt1' = run before rt1"
  have fw: "fsWatchers rt1' = fsWatchers rt @ [nw]"
    and sw: "statWatchers rt1' = statWatchers rt"
    and len: "length (promises rt1') = Suc P"
    using run_frame[of before rt1] by (simp_all add: rt1'_def rt1 P_def)
  from quiet have pend: "promises rt1' ! P = Pending" by (simp add: rt1'_def w)
  from abort have res: "result = Suc P"
    and p2: "promises rt2 = promises rt1' @ [Resolved Undefined]"
    and f2: "fsWatchers rt2 = fsWatchers rt @ [nw\<lparr>w_closed := True\<rparr>]"
    and s2: "statWatchers rt2 = statWatchers rt"
    by (auto simp: watchDir_abort_def w watcher_close_def newPromise_def settlePromise_def
          settle_def Let_def rt1'_def[symmetric] fw sw len h_def nth_append)
  have "silent P rt2"
    using known by (fastforce simp: silent_def known_promises_def f2 s2 P_def nw_def)
  then have "promises (run events rt2) ! P = promises rt2 ! P" for events
    by (rule run_silent)
  moreover have "promises rt2 ! P = Pending"
    using pend len by (simp add: p2 nth_append)
  moreover have "promises rt2 ! result = Resolved Undefined"
    using len by (simp add: p2 res nth_append)
  ultimately show ?thesis by (simp add: w)
qed

text \<open>
  A watch on \<open>home/sub\<close> in the empty runtime, aborted at once: the promise of \<open>abort\<close>
  is resolved, and a change in \<open>home/sub\<close> afterwards leaves the promise of the watch
  pending.
\<close>

theorem watchDir_abort_leaves_pending_witness:
  "known_promises empty_runtime \<and>
   watchDir example_helper ''sub'' no_options example_fs empty_runtime =
     (\<lparr>dw_promise = 0, dw_watcher = Some 0\<rparr>,
      \<lparr>promises = [Pending],
       fsWatchers = [\<lparr>w_path = ''home/sub'', w_listener = ResolveWithArgs 0, w_closed = False\<rparr>],
       statWatchers = []\<rparr>) \<and>
   watchDir_abort \<lparr>dw_promise = 0, dw_watcher = Some 0\<rparr>
      \<lparr>promises = [Pending],
       fsWatchers = [\<lparr>w_path = ''home/sub'', w_listener = ResolveWithArgs 0, w_closed = False\<rparr>],
       statWatchers = []\<rparr> =
     (1,
      \<lparr>promises = [Pending, Resolved Undefined],
       fsWatchers = [\<lparr>w_path = ''home/sub'', w_listener = ResolveWithArgs 0, w_closed = True\<rparr>],
       statWatchers = []\<rparr>) \<and>
   promises (run [DirChange ''home/sub'' ''rename'' ''c.txt'']
      \<lparr>promises = [Pending, Resolved Undefined],
       fsWatchers = [\<lparr>w_path = ''home/sub'', w_listener = ResolveWithArgs 0, w_closed = True\<rparr>],
       statWatchers = []\<rparr>) ! 0 = Pending"
proof -
  let ?w = "\<lparr>dw_promise = 0, dw_watcher = Some 0\<rparr>"
  let ?rt1 = "\<lparr>promises = [Pending],
       fsWatchers = [\<lparr>w_path = ''home/sub'', w_listener = ResolveWithArgs 0, w_closed = False\<rparr>],
       statWatchers = []\<rparr>"
  let ?rt2 = "\<lparr>promises = [Pending, Resolved Undefined],
       fsWatchers = [\<lparr>w_path = ''home/sub'', w_listener = ResolveWithArgs 0, w_closed = True\<rparr>],
       statWatchers = []\<rparr>"
  have k: "known_promises empty_runtime"
    by (simp add: known_promises_def empty_runtime_def)
  have w: "watchDir example_helper ''sub'' no_options example_fs empty_runtime = (?w, ?rt1)"
    by code_simp
  have c: "dw_watcher ?w \<noteq> None" by simp
  have q: "promises (run [] ?rt1) ! dw_promise ?w = Pending"
    by (simp add: run_def)
  have a: "watchDir_abort ?w (run [] ?rt1) = (1, ?rt2)"
    by code_simp
  from watchDir_abort_leaves_pending[OF k w c q a]
  have "promises (run [DirChange ''home/sub'' ''rename'' ''c.txt''] ?rt2) ! dw_promise ?w = Pending"
    by blast
  with k w a show ?thesis by (simp add: run_def)
qed

subsection \<open>Aborting a file watch\<close>

text \<open>
  Claim C6 does not hold of the code. \<open>abort\<close> of \<open>watchFile\<close> passes a new function to
  \<open>fs.unwatchFile\<close>, which takes it for the listener to remove: it is not a listener of
  the path, so nothing is removed, the listener of the watch stays registered (the
  polling goes on), and the new function is never called. In a runtime whose listeners
  resolve existing promises, whatever events passed between \<open>watchFile\<close> and \<open>abort\<close>
  and whatever events follow, the promise that \<open>abort\<close> returned is pending.
\<close>

theorem watchFile_abort_never_resolves:
  assumes known: "known_promises rt"
    and watch: "watchFile this filePath options rt = (w, rt1)"
    and abort: "watchFile_abort w (run before rt1) = (result, rt2)"
  shows "ResolveWithArgs (fw_promise w) \<in> set (statListeners rt2 (resolvePath this filePath)) \<and>
         (\<forall>events. promises (run events rt2) ! result = Pending)"
proof -
  define P where "P = length (promises rt)"
  define path where "path = resolvePath this filePath"
  define ls where "ls = statListeners rt path @ [ResolveWithArgs P]"
  from watch have w: "w = \<lparr>fw_promise = P, fw_this = this, fw_filePath = filePath\<rparr>"
    and rt1: "rt1 = rt\<lparr>promises := promises rt @ [Pending],
        statWatchers := AList.update path ls (statWatchers rt)\<rparr>"
    by (auto simp: watchFile_def newPromise_def fs_watchFile_def Let_def P_def path_def ls_def
          statListeners_def)
  define rt1' where "rt1' = run before rt1"
  have fw: "fsWatchers rt1' = fsWatchers rt"
    and sw: "statWatchers rt1' = AList.update path ls (statWatchers rt)"
    and len: "length (promises rt1') = Suc P"
    using run_frame[of before rt1] by (simp_all add: rt1'_def rt1 P_def)
  have m: "map_of (statWatchers rt1') path = Some ls"
    by (simp add: sw update_conv')
  have old: "target l < P" if "l \<in> set (statListeners rt path)" for l
    using known statListeners_subset[OF that] by (auto simp: known_promises_def P_def)
  have notin: "ResolveVoid (Suc P) \<notin> set ls"
    by (auto simp: ls_def dest: old)
  then have rm: "removeListener (ResolveVoid (Suc P)) ls = ls"
    by (simp add: removeListener_def remove1_idem)
  have lsne: "ls \<noteq> []" by (simp add: ls_def)
  have "AList.update path ls (statWatchers rt1') = statWatchers rt1'"
    using m by (rule update_triv)
  with abort have res: "result = Suc P"
    and p2: "promises rt2 = promises rt1' @ [Pending]"
    and f2: "fsWatchers rt2 = fsWatchers rt"
    and s2: "statWatchers rt2 = statWatchers rt1'"
    by (auto simp: watchFile_abort_def w newPromise_def fs_unwatchFile_def Let_def
          rt1'_def[symmetric] path_def[symmetric] m rm lsne len fw)
  have tl: "target l \<le> P" if "(q, ls') \<in> set (statWatchers rt2)" "l \<in> set ls'" for q ls' l
  proof -
    from that(1) have "(q, ls') \<in> set (AList.update path ls (statWatchers rt))"
      by (simp add: s2 sw)
    then have "(q, ls') \<in> set (statWatchers rt) \<or> ls' = ls"
      by (auto dest: set_update_cases)
    then show ?thesis
    proof
      assume "(q, ls') \<in> set (statWatchers rt)"
      with known that(2) have "target l < P" by (auto simp: known_promises_def P_def)
      then show ?thesis by simp
    next
      assume "ls' = ls"
      with that(2) old show ?thesis by (auto simp: ls_def dest: less_imp_le)
    qed
  qed
  have "silent (Suc P) rt2"
    using known tl by (fastforce simp: silent_def known_promises_def f2 P_def)
  then have "promises (run events rt2) ! Suc P = promises rt2 ! Suc P" for events
    by (rule run_silent)
  moreover have "promises rt2 ! Suc P = Pending"
    using len by (simp add: p2 nth_append)
  moreover have "ResolveWithArgs P \<in> set (statListeners rt2 path)"
    by (simp add: statListeners_def s2 m ls_def)
  ultimately show ?thesis by (simp add: w res path_def)
qed

text \<open>
  A watch on \<open>home/a.txt\<close> in the empty runtime, aborted at once: the listener of the
  watch is still registered, and after a change of the file the promise of \<open>abort\<close> is
  still pending.
\<close>

theorem watchFile_abort_never_resolves_witness:
  "known_promises empty_runtime \<and>
   watchFile example_helper ''a.txt'' no_options empty_runtime =
     (\<lparr>fw_promise = 0, fw_this = example_helper, fw_filePath = ''a.txt''\<rparr>,
      \<lparr>promises = [Pending], fsWatchers = [],
       statWatchers = [(''home/a.txt'', [ResolveWithArgs 0])]\<rparr>) \<and>
   watchFile_abort \<lparr>fw_promise = 0, fw_this = example_helper, fw_filePath = ''a.txt''\<rparr>
      \<lparr>promises = [Pending], fsWatchers = [],
       statWatchers = [(''home/a.txt'', [ResolveWithArgs 0])]\<rparr> =
     (1,
      \<lparr>promises = [Pending, Pending], fsWatchers = [],
       statWatchers = [(''home/a.txt'', [ResolveWithArgs 0])]\<rparr>) \<and>
   promises (run [FileChange ''home/a.txt'' \<lparr>st_type = RegularFile, st_size = 6\<rparr>
                    \<lparr>st_type = RegularFile, st_size = 5\<rparr>]
      \<lparr>promises = [Pending, Pending], fsWatchers = [],
       statWatchers = [(''home/a.txt'', [ResolveWithArgs 0])]\<rparr>) ! 1 = Pending"
proof -
  let ?w = "\<lparr>fw_promise = 0, fw_this = example_helper, fw_filePath = ''a.txt''\<rparr>"
  let ?rt1 = "\<lparr>promises = [Pending], fsWatchers = [],
       statWatchers = [(''home/a.txt'', [ResolveWithArgs 0])]\<rparr>"
  let ?rt2 = "\<lparr>promises = [Pending, Pending], fsWatchers = [],
       statWatchers = [(''home/a.txt'', [ResolveWithArgs 0])]\<rparr>"
  have k: "known_promises empty_runtime"
    by (simp add: known_promises_def empty_runtime_def)
  have w: "watchFile example_helper ''a.txt'' no_options empty_runtime = (?w, ?rt1)"
    by code_simp
  have a: "watchFile_abort ?w (run [] ?rt1) = (1, ?rt2)"
    by code_simp
  from watchFile_abort_never_resolves[OF k w a]
  have "promises (run [FileChange ''home/a.txt'' \<lparr>st_type = RegularFile, st_size = 6\<rparr>
                    \<lparr>st_type = RegularFile, st_size = 5\<rparr>] ?rt2) ! 1 = Pending"
    by blast
  with k w a show ?thesis by (simp add: run_def)
qed

subsection \<open>The methods keep the listeners on existing promises\<close>

lemma known_empty: "known_promises empty_runtime"
  by (simp add: known_promises_def empty_runtime_def)

lemma known_run: "known_promises rt \<Longrightarrow> known_promises (run events rt)"
  by (simp add: known_promises_def run_frame)

lemma known_promisesI:
  assumes "known_promises rt" "length (promises rt) \<le> length (promises rt')"
    and "\<And>w. w \<in> set (fsWatchers rt') \<Longrightarrow>
           (\<exists>w' \<in> set (fsWatchers rt). w_listener w = w_listener w') \<or>
           target (w_listener w) < length (promises rt')"
    and "\<And>q ls l. (q, ls) \<in> set (statWatchers rt') \<Longrightarrow> l \<in> set ls \<Longrightarrow>
           (\<exists>q' ls'. (q', ls') \<in> set (statWatchers rt) \<and> l \<in> set ls') \<or>
           target l < length (promises rt')"
  shows "known_promises rt'"
  unfolding known_promises_def
proof (intro conjI ballI)
  fix w assume "w \<in> set (fsWatchers rt')"
  from assms(3)[OF this] assms(1,2) show "target (w_listener w) < length (promises rt')"
    by (auto simp: known_promises_def intro: less_le_trans)
next
  fix x assume x: "x \<in> set (statWatchers rt')"
  show "case x of (path, ls) \<Rightarrow> \<forall>l \<in> set ls. target l < length (promises rt')"
  proof (cases x)
    case (Pair q ls)
    have "target l < length (promises rt')" if "l \<in> set ls" for l
    proof -
      from assms(4)[of q ls l] x Pair that
      consider q' ls' where "(q', ls') \<in> set (statWatchers rt)" "l \<in> set ls'"
        | "target l < length (promises rt')" by blast
      then show ?thesis
      proof cases
        case 1
        with assms(1) have "target l < length (promises rt)"
          by (auto simp: known_promises_def)
        with assms(2) show ?thesis by simp
      next
        case 2
        then show ?thesis .
      qed
    qed
    with Pair show ?thesis by simp
  qed
qed


lemma settlePromise_frame [simp]:
  "fsWatchers (settlePromise p outcome rt) = fsWatchers rt"
  "statWatchers (settlePromise p outcome rt) = statWatchers rt"
  "length (promises (settlePromise p outcome rt)) = length (promises rt)"
  by (simp_all add: settlePromise_def)

lemma known_watchDir:
  assumes "known_promises rt"
  shows "known_promises (snd (watchDir this dirPath options fs rt))"
proof (cases "fs_access fs (resolvePath this dirPath)")
  case (Inl err)
  show ?thesis
    by (rule known_promisesI[OF assms])
       (auto simp: watchDir_def newPromise_def fs_watch_def Let_def Inl)
next
  case (Inr u)
  show ?thesis
    by (rule known_promisesI[OF assms])
       (auto simp: watchDir_def newPromise_def fs_watch_def Let_def Inr)
qed

lemma set_list_update_closed:
  assumes "w \<in> set (ws[i := (ws ! i)\<lparr>w_closed := True\<rparr>])"
  shows "\<exists>w' \<in> set ws. w_listener w = w_listener w'"
proof -
  from assms obtain j where j: "j < length ws" and w: "w = ws[i := (ws ! i)\<lparr>w_closed := True\<rparr>] ! j"
    by (auto simp: in_set_conv_nth)
  show ?thesis
  proof (cases "j = i")
    case True
    with j w have "w_listener w = w_listener (ws ! i)" by simp
    moreover from True j have "ws ! i \<in> set ws" by simp
    ultimately show ?thesis by blast
  next
    case False
    with j w have "w = ws ! j" by simp
    with j show ?thesis by auto
  qed
qed

lemma watcher_close_frame:
  "statWatchers (watcher_close h rt) = statWatchers rt"
  "promises (watcher_close h rt) = promises rt"
  "w \<in> set (fsWatchers (watcher_close h rt)) \<Longrightarrow>
     \<exists>w' \<in> set (fsWatchers rt). w_listener w = w_listener w'"
proof -
  show "statWatchers (watcher_close h rt) = statWatchers rt"
    by (simp add: watcher_close_def)
  show "promises (watcher_close h rt) = promises rt"
    by (simp add: watcher_close_def)
  assume "w \<in> set (fsWatchers (watcher_close h rt))"
  then show "\<exists>w' \<in> set (fsWatchers rt). w_listener w = w_listener w'"
    by (cases "h < length (fsWatchers rt)")
       (auto simp: watcher_close_def dest: set_list_update_closed)
qed

lemma known_watchDir_abort:
  assumes "known_promises rt"
  shows "known_promises (snd (watchDir_abort w rt))"
proof (cases "dw_watcher w")
  case None
  show ?thesis
    by (rule known_promisesI[OF assms])
       (auto simp: watchDir_abort_def newPromise_def Let_def None)
next
  case (Some watcher)
  show ?thesis
  proof (rule known_promisesI[OF assms])
    show "length (promises rt) \<le> length (promises (snd (watchDir_abort w rt)))"
      by (simp add: watchDir_abort_def newPromise_def Let_def Some watcher_close_frame)
  next
    fix x assume "x \<in> set (fsWatchers (snd (watchDir_abort w rt)))"
    then have "x \<in> set (fsWatchers (watcher_close watcher rt))"
      by (simp add: watchDir_abort_def newPromise_def Let_def Some)
    from watcher_close_frame(3)[OF this]
    show "(\<exists>w' \<in> set (fsWatchers rt). w_listener x = w_listener w') \<or>
          target (w_listener x) < length (promises (snd (watchDir_abort w rt)))" ..
  next
    fix q ls l
    assume "(q, ls) \<in> set (statWatchers (snd (watchDir_abort w rt)))" "l \<in> set ls"
    then have "(q, ls) \<in> set (statWatchers rt) \<and> l \<in> set ls"
      by (simp add: watchDir_abort_def newPromise_def Let_def Some watcher_close_frame)
    then show "(\<exists>q' ls'. (q', ls') \<in> set (statWatchers rt) \<and> l \<in> set ls') \<or>
          target l < length (promises (snd (watchDir_abort w rt)))" by blast
  qed
qed


lemma known_watchFile:
  assumes "known_promises rt"
  shows "known_promises (snd (watchFile this filePath options rt))"
proof -
  define path where "path = resolvePath this filePath"
  define P where "P = length (promises rt)"
  define ls0 where "ls0 = statListeners rt path @ [ResolveWithArgs P]"
  have rt': "snd (watchFile this filePath options rt) =
      rt\<lparr>promises := promises rt @ [Pending],
         statWatchers := AList.update path ls0 (statWatchers rt)\<rparr>"
    by (simp add: watchFile_def newPromise_def fs_watchFile_def Let_def path_def P_def ls0_def
          statListeners_def)
  show ?thesis
  proof (rule known_promisesI[OF assms])
    show "length (promises rt) \<le> length (promises (snd (watchFile this filePath options rt)))"
      by (simp add: rt')
  next
    fix x assume "x \<in> set (fsWatchers (snd (watchFile this filePath options rt)))"
    then show "(\<exists>w' \<in> set (fsWatchers rt). w_listener x = w_listener w') \<or>
          target (w_listener x) < length (promises (snd (watchFile this filePath options rt)))"
      by (auto simp: rt')
  next
    fix q ls l
    assume "(q, ls) \<in> set (statWatchers (snd (watchFile this filePath options rt)))"
      and l: "l \<in> set ls"
    then have "(q, ls) \<in> set (statWatchers rt) \<or> (q, ls) = (path, ls0)"
      by (auto simp: rt' dest: set_update_cases)
    then show "(\<exists>q' ls'. (q', ls') \<in> set (statWatchers rt) \<and> l \<in> set ls') \<or>
          target l < length (promises (snd (watchFile this filePath options rt)))"
    proof
      assume "(q, ls) \<in> set (statWatchers rt)"
      with l show ?thesis by blast
    next
      assume "(q, ls) = (path, ls0)"
      with l have "l \<in> set (statListeners rt path) \<or> l = ResolveWithArgs P"
        by (auto simp: ls0_def)
      then show ?thesis
      proof
        assume "l \<in> set (statListeners rt path)"
        from statListeners_subset[OF this] show ?thesis by blast
      next
        assume "l = ResolveWithArgs P"
        then show ?thesis by (simp add: rt' P_def)
      qed
    qed
  qed
qed

lemma set_removeListener: "set (removeListener l ls) \<subseteq> set ls"
  using set_remove1_subset[of l "rev ls"] by (simp add: removeListener_def)

lemma fs_unwatchFile_frame:
  "fsWatchers (fs_unwatchFile path l rt) = fsWatchers rt"
  "promises (fs_unwatchFile path l rt) = promises rt"
  "(q, ls) \<in> set (statWatchers (fs_unwatchFile path l rt)) \<Longrightarrow> l' \<in> set ls \<Longrightarrow>
     \<exists>q' ls'. (q', ls') \<in> set (statWatchers rt) \<and> l' \<in> set ls'"
proof -
  show "fsWatchers (fs_unwatchFile path l rt) = fsWatchers rt"
    by (simp add: fs_unwatchFile_def Let_def split: option.splits)
  show "promises (fs_unwatchFile path l rt) = promises rt"
    by (simp add: fs_unwatchFile_def Let_def split: option.splits)
  assume in': "(q, ls) \<in> set (statWatchers (fs_unwatchFile path l rt))" and l': "l' \<in> set ls"
  show "\<exists>q' ls'. (q', ls') \<in> set (statWatchers rt) \<and> l' \<in> set ls'"
  proof (cases "map_of (statWatchers rt) path")
    case None
    with in' l' show ?thesis by (auto simp: fs_unwatchFile_def)
  next
    case (Some old)
    then have old: "(path, old) \<in> set (statWatchers rt)" by (rule map_of_SomeD)
    show ?thesis
    proof (cases "removeListener l old = []")
      case True
      with in' Some have "(q, ls) \<in> set (AList.delete path (statWatchers rt))"
        by (simp add: fs_unwatchFile_def)
      then have "(q, ls) \<in> set (statWatchers rt)"
        by (auto simp: AList.delete_eq)
      with l' show ?thesis by blast
    next
      case False
      with in' Some
      have "(q, ls) \<in> set (AList.update path (removeListener l old) (statWatchers rt))"
        by (simp add: fs_unwatchFile_def)
      then have "(q, ls) \<in> set (statWatchers rt) \<or> ls = removeListener l old"
        by (auto dest: set_update_cases)
      then show ?thesis
      proof
        assume "(q, ls) \<in> set (statWatchers rt)"
        with l' show ?thesis by blast
      next
        assume "ls = removeListener l old"
        with l' set_removeListener[of l old] have "l' \<in> set old" by auto
        with old show ?thesis by blast
      qed
    qed
  qed
qed

lemma known_watchFile_abort:
  assumes "known_promises rt"
  shows "known_promises (snd (watchFile_abort w rt))"
proof -
  define path where "path = resolvePath (fw_this w) (fw_filePath w)"
  define l where "l = ResolveVoid (length (promises rt))"
  define rt0 where "rt0 = rt\<lparr>promises := promises rt @ [Pending]\<rparr>"
  have rt': "snd (watchFile_abort w rt) = fs_unwatchFile path l rt0"
    by (simp add: watchFile_abort_def newPromise_def Let_def path_def l_def rt0_def)
  show ?thesis
  proof (rule known_promisesI[OF assms])
    show "length (promises rt) \<le> length (promises (snd (watchFile_abort w rt)))"
      by (simp add: rt' fs_unwatchFile_frame rt0_def)
  next
    fix x assume "x \<in> set (fsWatchers (snd (watchFile_abort w rt)))"
    then show "(\<exists>w' \<in> set (fsWatchers rt). w_listener x = w_listener w') \<or>
          target (w_listener x) < length (promises (snd (watchFile_abort w rt)))"
      by (auto simp: rt' fs_unwatchFile_frame rt0_def)
  next
    fix q ls l'
    assume "(q, ls) \<in> set (statWatchers (snd (watchFile_abort w rt)))" "l' \<in> set ls"
    then have "\<exists>q' ls'. (q', ls') \<in> set (statWatchers rt0) \<and> l' \<in> set ls'"
      unfolding rt' by (rule fs_unwatchFile_frame(3))
    then show "(\<exists>q' ls'. (q', ls') \<in> set (statWatchers rt) \<and> l' \<in> set ls') \<or>
          target l' < length (promises (snd (watchFile_abort w rt)))"
      by (simp add: rt0_def)
  qed
qed

subsection \<open>Subprocess execution\<close>

lemma pushLines_eq: "pushLines lines stdout = stdout @ filter (\<lambda>line. line \<noteq> []) lines"
  by (induction lines arbitrary: stdout) auto

lemma execute_one_chunk:
  "execute (\<lambda>command args. SpawnReturns [StdoutData out, StdoutEnd]) command args =
   Resolved (filter (\<lambda>line. line \<noteq> []) (splitOn (CHR 0x0A) out))"
  by (simp add: execute_def onData_def pushLines_eq settle_def toString_def)

lemma execute_spawn_throws:
  "spawn command args = SpawnThrows e \<Longrightarrow> execute spawn command args = Rejected e"
  by (simp add: execute_def settle_def)

lemma dispatch_not_rejected:
  "promise \<noteq> Rejected e \<Longrightarrow> dispatch events stdout promise \<noteq> Rejected e"
  by (induction events stdout promise rule: dispatch.induct)
     (auto simp: settle_def split: promise.splits)

lemma execute_never_rejects_after_spawn:
  "spawn command args = SpawnReturns events \<Longrightarrow> execute spawn command args \<noteq> Rejected e"
  by (simp add: execute_def dispatch_not_rejected)

lemma splitOn_not_Nil: "splitOn sep s \<noteq> []"
  by (induction s) (auto split: list.splits)

lemma splitOn_append_sep: "splitOn sep (a @ sep # b) = splitOn sep a @ splitOn sep b"
proof (induction a)
  case Nil
  show ?case by simp
next
  case (Cons x a)
  obtain w ws where "splitOn sep a = w # ws"
    using splitOn_not_Nil[of sep a] by (cases "splitOn sep a") auto
  with Cons show ?case by simp
qed

lemma nonEmptyLines_append:
  "nonEmptyLines (a @ CHR 0x0A # b) = nonEmptyLines a @ nonEmptyLines b"
  by (simp add: nonEmptyLines_def splitOn_append_sep)

lemma nonEmptyLines_Nil: "nonEmptyLines [] = []"
  by (simp add: nonEmptyLines_def)

lemma dispatch_data:
  "dispatch (map StdoutData chunks @ events) stdout promise =
   dispatch events (stdout @ concat (map nonEmptyLines chunks)) promise"
  by (induction chunks arbitrary: stdout)
     (simp_all add: onData_def pushLines_eq toString_def nonEmptyLines_def)

lemma execute_chunks:
  "execute (\<lambda>command args. SpawnReturns (map StdoutData chunks @ [StdoutEnd])) command args =
   Resolved (concat (map nonEmptyLines chunks))"
  by (simp add: execute_def dispatch_data settle_def)

lemma nonEmptyLines_aligned:
  "(\<And>chunk. chunk \<in> set chunks \<Longrightarrow> chunk = [] \<or> last chunk = CHR 0x0A) \<Longrightarrow>
   concat (map nonEmptyLines chunks) = nonEmptyLines (concat chunks)"
proof (induction chunks)
  case Nil
  show ?case by (simp add: nonEmptyLines_Nil)
next
  case (Cons chunk chunks)
  then have IH: "concat (map nonEmptyLines chunks) = nonEmptyLines (concat chunks)" by simp
  show ?case
  proof (cases "chunk = []")
    case True
    with IH show ?thesis by (simp add: nonEmptyLines_Nil)
  next
    case False
    with Cons.prems[of chunk] have "chunk = butlast chunk @ [CHR 0x0A]"
      using append_butlast_last_id[of chunk] by simp
    then obtain a where a: "chunk = a @ [CHR 0x0A]" ..
    have "nonEmptyLines chunk = nonEmptyLines a"
      using nonEmptyLines_append[of a "[]"] by (simp add: a nonEmptyLines_Nil)
    moreover have "nonEmptyLines (chunk @ concat chunks) = nonEmptyLines a @ nonEmptyLines (concat chunks)"
      using nonEmptyLines_append[of a "concat chunks"] by (simp add: a)
    ultimately show ?thesis using IH by simp
  qed
qed

lemma dispatch_ignores_exit:
  "dispatch (filter (\<lambda>event. \<not> isExit event) events) stdout promise = dispatch events stdout promise"
  by (induction events stdout promise rule: dispatch.induct) auto

text \<open>
  Claim C4 does not hold of the code: the \<open>data\<close> listener splits every buffer on its
  own, so a line that spans two buffers becomes two entries. The output \<open>abc\<close> and a
  newline resolves with \<open>abc\<close> when it arrives in one buffer, and with \<open>ab\<close> and \<open>c\<close>
  when it arrives as \<open>ab\<close> followed by \<open>c\<close> and the newline.
\<close>

theorem execute_splits_inside_lines:
  "execute (\<lambda>command args. SpawnReturns [StdoutData ''ab'', StdoutData (''c'' @ [CHR 0x0A]), StdoutEnd])
     ''cat'' [''lines.txt''] = Resolved [''ab'', ''c''] \<and>
   execute (\<lambda>command args. SpawnReturns [StdoutData (''abc'' @ [CHR 0x0A]), StdoutEnd])
     ''cat'' [''lines.txt''] = Resolved [''abc'']"
  by code_simp

text \<open>
  Claim C5 does not hold of the code. An exception of \<open>spawn\<close> rejects the promise
  (\<open>execute_spawn_throws\<close>) and the exit code is ignored, but a command that cannot be
  started is reported by the \<open>error\<close> event of the child after \<open>spawn\<close> has returned,
  and \<open>execute\<close> has no listener for it: the promise is not rejected. It stays pending,
  or resolves with no lines when the standard output ends.
\<close>

theorem execute_ignores_child_error:
  "execute (\<lambda>command args. SpawnReturns [ChildError ENOENT]) ''no-such-command'' [] = Pending \<and>
   execute (\<lambda>command args. SpawnReturns [ChildError ENOENT, StdoutEnd]) ''no-such-command'' [] =
     Resolved []"
  by code_simp

end
